theory Spec2Isabelle
  imports Main "HOL-Library.Char_ord" "HOL-Library.List_Lexorder"
begin

section \<open>Strings\<close>

text \<open>
  Strings are \<^typ>\<open>string\<close>, read as ASCII text. The three library functions of
  JavaScript that \<open>addToProject\<close> applies to its inputs are given on ASCII:
  \<open>String.prototype.trim\<close> removes tab, line feed, vertical tab, form feed, carriage
  return and space from both ends, \<open>toLowerCase\<close> (and \<open>toLocaleLowerCase\<close> in a
  locale without special casing of Latin letters) maps \<open>A\<close>..\<open>Z\<close> to \<open>a\<close>..\<open>z\<close>,
  and \<open>split\<close> cuts at every separator, so that the empty string gives one empty piece.
  The comparison \<open>>\<close> of two JavaScript strings is the lexicographic order of their
  code units, which is \<open><\<close> of \<^typ>\<open>char list\<close> here.
\<close>

definition isWhiteSpace :: "char \<Rightarrow> bool" where
  "isWhiteSpace c = (of_char c \<in> set [9, 10, 11, 12, 13, 32 :: nat])"

definition trim :: "string \<Rightarrow> string" where
  "trim s = rev (dropWhile isWhiteSpace (rev (dropWhile isWhiteSpace s)))"

definition lowerChar :: "char \<Rightarrow> char" where
  "lowerChar c = (let n = of_char c :: nat in if 65 \<le> n \<and> n \<le> 90 then char_of (n + 32) else c)"

definition toLowerCase :: "string \<Rightarrow> string" where
  "toLowerCase s = map lowerChar s"

fun split :: "char \<Rightarrow> string \<Rightarrow> string list" where
  "split sep [] = [[]]"
| "split sep (c # cs) =
     (if c = sep then [] # split sep cs
      else (case split sep cs of
              [] \<Rightarrow> [[c]]
            | w # ws \<Rightarrow> (c # w) # ws))"

definition isDigit :: "char \<Rightarrow> bool" where
  "isDigit c = (let n = of_char c :: nat in 48 \<le> n \<and> n \<le> 57)"

text \<open>
  \<open>parseInt(digits, 10)\<close> on a non-empty string of decimal digits. JavaScript rounds the
  value to a double beyond \<open>2^53\<close>; the model keeps the exact natural number.
\<close>

definition parseInt10 :: "string \<Rightarrow> nat" where
  "parseInt10 s = foldl (\<lambda>n c. 10 * n + (of_char c - 48)) 0 s"

definition stripPrefix :: "string \<Rightarrow> string \<Rightarrow> string option" where
  "stripPrefix p s = (if take (length p) s = p then Some (drop (length p) s) else None)"

section \<open>Data\<close>

text \<open>
  The values \<open>core.getInput\<close> returned for the six inputs of the action. Reading the
  inputs is the runtime's work; the model starts from what it returned.
\<close>

record inputs =
  input_project_url :: string
  input_github_token :: string
  input_field_name :: string
  input_field_option :: string
  input_labeled :: string
  input_label_operator :: string

text \<open>
  The part of \<open>github.context.payload\<close> that is read: the issue or pull request with its
  number, node id, URL and label names, and \<open>repository?.owner.login\<close>. A field that may
  be \<open>undefined\<close> is an \<^typ>\<open>'a option\<close>.
\<close>

record webhook_issue =
  number :: int
  node_id :: "string option"
  html_url :: "string option"
  labels :: "string list option"

record payload =
  payload_issue :: "webhook_issue option"
  payload_pull_request :: "webhook_issue option"
  payload_repository_owner_login :: "string option"

text \<open>
  The response interfaces. \<open>ProjectNodeIDResponse\<close> has the optional members
  \<open>organization\<close> and \<open>user\<close>. A member that is present is an object with the member
  \<open>projectV2\<close>; the query declares the project nullable, so that a reply can hold the
  owner without a project: \<open>projectV2\<close> is \<open>Some id\<close> for the object \<open>{id}\<close> and
  \<open>None\<close> when it is \<open>null\<close> or absent. The three mutation responses and
  \<open>ProjectAddItemResponse\<close>, \<open>ProjectV2AddDraftIssueResponse\<close> hold one item id each, a
  \<^typ>\<open>string\<close>.
\<close>

record project_owner =
  projectV2 :: "string option"

record ProjectNodeIDResponse =
  organization :: "project_owner option"
  user :: "project_owner option"

record field_option_node =
  option_id :: string
  option_name :: string

record ProjectV2GetFieldAndOptionResponse =
  field_id :: string
  options :: "field_option_node list"

record iteration =
  startDate :: string
  iteration_id :: string

record ProjectV2GetIterationResponse =
  iteration_field_id :: string
  iterations :: "iteration list"

text \<open>
  The seven GraphQL operations, named as in the query texts, each with the variables the
  code passes: \<open>GetProject ownerTypeQuery projectOwnerName projectNumber\<close>,
  \<open>AddIssueToProject projectId contentId\<close>, \<open>AddDraftIssueToProject projectId title\<close>,
  \<open>GetOptionField projectId fieldName\<close>,
  \<open>AddIssueToColumn projectId itemId fieldId fieldOption\<close>, \<open>GetIteration projectId\<close>,
  \<open>AddIssueToIteration projectId itemId fieldId iterationId\<close>.
\<close>

datatype call =
    GetProject string string nat
  | AddIssueToProject "string option" "string option"
  | AddDraftIssueToProject "string option" "string option"
  | GetOptionField "string option" string
  | AddIssueToColumn "string option" string string "string option"
  | GetIteration "string option"
  | AddIssueToIteration "string option" string string string

text \<open>
  The remote side, \<open>octokit.graphql\<close>: for each operation, the reply to its variables,
  \<open>Inl msg\<close> when the promise rejects. A run issues each operation at most once, so that a
  reply per request describes any remote, also one that changes with the calls.
\<close>

record remote =
  getProject :: "string \<Rightarrow> string \<Rightarrow> nat \<Rightarrow> string + ProjectNodeIDResponse"
  addIssueToProject :: "string option \<Rightarrow> string option \<Rightarrow> string + string"
  addDraftIssueToProject :: "string option \<Rightarrow> string option \<Rightarrow> string + string"
  getOptionField :: "string option \<Rightarrow> string \<Rightarrow> string + ProjectV2GetFieldAndOptionResponse"
  addIssueToColumn :: "string option \<Rightarrow> string \<Rightarrow> string \<Rightarrow> string option \<Rightarrow> string + string"
  getIteration :: "string option \<Rightarrow> string + ProjectV2GetIterationResponse"
  addIssueToIteration :: "string option \<Rightarrow> string \<Rightarrow> string \<Rightarrow> string \<Rightarrow> string + string"

text \<open>
  What a run can raise: the two \<open>throw new Error\<close> of the source, the \<open>TypeError\<close> of
  \<open>Array.prototype.reduce\<close> on an empty array without initial value, and a rejected
  request.
\<close>

datatype error =
    InvalidProjectUrl string
  | UnsupportedOwnerType "string option"
  | TypeError
  | GraphqlError string

text \<open>The lines written with \<open>core.debug\<close> and \<open>core.info\<close>, with the values they print.\<close>

datatype log_entry =
    Debug_IssueOwner "string option"
  | Info_SkipNotAllLabels "int option" "string list"
  | Info_SkipHasLabel "int option" "string list"
  | Info_SkipNoLabel "int option" "string list"
  | Debug_ProjectUrl string
  | Debug_ProjectOwner string
  | Debug_ProjectNumber nat
  | Debug_ProjectOwnerType string
  | Debug_ProjectNodeId "string option"
  | Debug_ContentId "string option"
  | Info_CreatingProjectItem
  | Info_CreatingDraftIssue
  | Debug_CreatedItemId string
  | Debug_FieldId string
  | Debug_FieldOptionId "string option"
  | Debug_IterationFieldId string
  | Debug_IterationId string

text \<open>
  The effects of a run, in order: the requests sent, the values given to
  \<open>core.setOutput('itemId', _)\<close> and the log.
\<close>

record run_state =
  calls :: "call list"
  outputs :: "string list"
  logs :: "log_entry list"

definition start :: run_state where
  "start = \<lparr>calls = [], outputs = [], logs = []\<rparr>"

definition logged :: "log_entry \<Rightarrow> run_state \<Rightarrow> run_state" where
  "logged e s = s\<lparr>logs := logs s @ [e]\<rparr>"

definition requested :: "call \<Rightarrow> run_state \<Rightarrow> run_state" where
  "requested c s = s\<lparr>calls := calls s @ [c]\<rparr>"

definition setOutput :: "string \<Rightarrow> run_state \<Rightarrow> run_state" where
  "setOutput v s = s\<lparr>outputs := outputs s @ [v]\<rparr>"

section \<open>The project URL\<close>

text \<open>
  \<open>urlParse\<close> is the regular expression
  \<^verbatim>\<open>^(?:https:\/\/)?github\.com\/(?<ownerType>orgs|users)\/(?<ownerName>[^/]+)\/projects\/(?<projectNumber>\d+)\<close>
  matched at the start of the string. The optional group and the alternative are tried in
  the order of the expression. \<open>[^/]+\<close> can only stand for the whole run of characters up
  to the next slash, since a slash must follow it, and \<open>\d+\<close>, the last item, takes every
  digit it finds.
\<close>

record url_match =
  group_ownerType :: string
  group_ownerName :: string
  group_projectNumber :: string

definition matchOwnerPath :: "string \<Rightarrow> string \<Rightarrow> url_match option" where
  "matchOwnerPath ty s =
     (case stripPrefix (ty @ ''/'') s of
        None \<Rightarrow> None
      | Some s1 \<Rightarrow>
          (let name = takeWhile (\<lambda>c. c \<noteq> CHR ''/'') s1 in
           if name = [] then None
           else (case stripPrefix ''/projects/'' (dropWhile (\<lambda>c. c \<noteq> CHR ''/'') s1) of
                   None \<Rightarrow> None
                 | Some s2 \<Rightarrow>
                     (let digits = takeWhile isDigit s2 in
                      if digits = [] then None
                      else Some \<lparr>group_ownerType = ty, group_ownerName = name,
                                 group_projectNumber = digits\<rparr>))))"

definition matchHost :: "string \<Rightarrow> url_match option" where
  "matchHost s =
     (case stripPrefix ''github.com/'' s of
        None \<Rightarrow> None
      | Some s1 \<Rightarrow>
          (case matchOwnerPath ''orgs'' s1 of
             Some m \<Rightarrow> Some m
           | None \<Rightarrow> matchOwnerPath ''users'' s1))"

definition urlParse :: "string \<Rightarrow> url_match option" where
  "urlParse url =
     (case stripPrefix ''https://'' url of
        Some s \<Rightarrow> (case matchHost s of Some m \<Rightarrow> Some m | None \<Rightarrow> matchHost url)
      | None \<Rightarrow> matchHost url)"

section \<open>mustGetOwnerTypeQuery\<close>

text \<open>
  The argument is \<open>ownerType?: string\<close>, \<open>None\<close> for \<open>undefined\<close>. The conditional
  expression gives \<open>null\<close> for any other value, and \<open>!ownerTypeQuery\<close> holds for \<open>null\<close>
  and for the empty string.
\<close>

definition mustGetOwnerTypeQuery :: "string option \<Rightarrow> error + string" where
  "mustGetOwnerTypeQuery ownerType =
     (let ownerTypeQuery =
            (if ownerType = Some ''orgs'' then Some ''organization''
             else if ownerType = Some ''users'' then Some ''user''
             else None)
      in case ownerTypeQuery of
           None \<Rightarrow> Inl (UnsupportedOwnerType ownerType)
         | Some q \<Rightarrow> if q = [] then Inl (UnsupportedOwnerType ownerType) else Inr q)"

section \<open>addToProject\<close>

subsection \<open>Inputs and context, lines 83 to 95\<close>

definition labeledOf :: "inputs \<Rightarrow> string list" where
  "labeledOf inp =
     filter (\<lambda>l. length l > 0)
       (map (\<lambda>l. toLowerCase (trim l)) (split CHR '','' (input_labeled inp)))"

definition labelOperatorOf :: "inputs \<Rightarrow> string" where
  "labelOperatorOf inp = toLowerCase (trim (input_label_operator inp))"

definition issueOf :: "payload \<Rightarrow> webhook_issue option" where
  "issueOf pl = (case payload_issue pl of Some i \<Rightarrow> Some i | None \<Rightarrow> payload_pull_request pl)"

definition issueLabelsOf :: "payload \<Rightarrow> string list" where
  "issueLabelsOf pl =
     map toLowerCase
       (case issueOf pl of
          None \<Rightarrow> []
        | Some i \<Rightarrow> (case labels i of None \<Rightarrow> [] | Some ls \<Rightarrow> ls))"

subsection \<open>The label filter, lines 99 to 115\<close>

text \<open>\<open>Some e\<close> is the early return, with the line \<open>e\<close> it logs; \<open>None\<close> goes on.\<close>

definition labelFilter :: "string \<Rightarrow> string list \<Rightarrow> string list \<Rightarrow> int option \<Rightarrow> log_entry option" where
  "labelFilter labelOperator labeled issueLabels issueNumber =
     (if labelOperator = ''and'' then
        (if \<not> list_all (\<lambda>l. l \<in> set issueLabels) labeled
         then Some (Info_SkipNotAllLabels issueNumber labeled) else None)
      else if labelOperator = ''not'' then
        (if length labeled > 0 \<and> list_ex (\<lambda>l. l \<in> set labeled) issueLabels
         then Some (Info_SkipHasLabel issueNumber labeled) else None)
      else
        (if length labeled > 0 \<and> \<not> list_ex (\<lambda>l. l \<in> set labeled) issueLabels
         then Some (Info_SkipNoLabel issueNumber labeled) else None))"

subsection \<open>The latest iteration, lines 277 to 279\<close>

text \<open>
  \<open>reduce\<close> without an initial value: the first element starts the accumulator and the
  callback runs on the others from left to right; an empty array raises.
\<close>

fun reduce :: "('a \<Rightarrow> 'a \<Rightarrow> 'a) \<Rightarrow> 'a list \<Rightarrow> error + 'a" where
  "reduce f [] = Inl TypeError"
| "reduce f (x # xs) = Inr (foldl f x xs)"

definition later :: "iteration \<Rightarrow> iteration \<Rightarrow> iteration" where
  "later previous current = (if startDate previous > startDate current then previous else current)"

definition latestIteration :: "iteration list \<Rightarrow> error + iteration" where
  "latestIteration its = reduce later its"

subsection \<open>The iteration, lines 256 to 306\<close>

definition addToProject_iteration ::
  "remote \<Rightarrow> string option \<Rightarrow> string \<Rightarrow> run_state \<Rightarrow> (error + unit) \<times> run_state" where
  "addToProject_iteration api projectId createdItem s =
     (let s1 = requested (GetIteration projectId) s in
      case getIteration api projectId of
        Inl msg \<Rightarrow> (Inl (GraphqlError msg), s1)
      | Inr queryIterationResp \<Rightarrow>
          (let iterationFieldId = iteration_field_id queryIterationResp in
           case latestIteration (iterations queryIterationResp) of
             Inl e \<Rightarrow> (Inl e, s1)
           | Inr latest \<Rightarrow>
               (let iterationId = iteration_id latest;
                    s2 = logged (Debug_IterationId iterationId)
                           (logged (Debug_IterationFieldId iterationFieldId) s1);
                    s3 = requested
                           (AddIssueToIteration projectId createdItem iterationFieldId iterationId) s2
                in case addIssueToIteration api projectId createdItem iterationFieldId iterationId of
                     Inl msg \<Rightarrow> (Inl (GraphqlError msg), s3)
                   | Inr itemId \<Rightarrow> (Inr (), setOutput itemId s3))))"

subsection \<open>The field and its option, lines 208 to 254\<close>

definition addToProject_field ::
  "remote \<Rightarrow> string \<Rightarrow> string \<Rightarrow> string option \<Rightarrow> string \<Rightarrow> run_state
     \<Rightarrow> (error + unit) \<times> run_state" where
  "addToProject_field api fieldName fieldOptionName projectId createdItem s =
     (let s1 = requested (GetOptionField projectId fieldName) s in
      case getOptionField api projectId fieldName of
        Inl msg \<Rightarrow> (Inl (GraphqlError msg), s1)
      | Inr queryFieldResp \<Rightarrow>
          (let fieldId = field_id queryFieldResp;
               s2 = logged (Debug_FieldId fieldId) s1;
               fieldOption =
                 map_option option_id
                   (find (\<lambda>option. option_name option = fieldOptionName) (options queryFieldResp));
               s3 = logged (Debug_FieldOptionId fieldOption) s2;
               s4 = requested (AddIssueToColumn projectId createdItem fieldId fieldOption) s3
           in case addIssueToColumn api projectId createdItem fieldId fieldOption of
                Inl msg \<Rightarrow> (Inl (GraphqlError msg), s4)
              | Inr itemId \<Rightarrow>
                  addToProject_iteration api projectId createdItem (setOutput itemId s4)))"

subsection \<open>The project item, lines 157 to 206\<close>

definition addToProject_item ::
  "remote \<Rightarrow> string \<Rightarrow> string \<Rightarrow> webhook_issue option \<Rightarrow> string option \<Rightarrow> string
     \<Rightarrow> string option \<Rightarrow> string option \<Rightarrow> run_state \<Rightarrow> (error + unit) \<times> run_state" where
  "addToProject_item api fieldName fieldOptionName issue issueOwnerName projectOwnerName
       projectId contentId s =
     (if issueOwnerName = Some projectOwnerName then
        (let s1 = requested (AddIssueToProject projectId contentId) (logged Info_CreatingProjectItem s)
         in case addIssueToProject api projectId contentId of
              Inl msg \<Rightarrow> (Inl (GraphqlError msg), s1)
            | Inr itemId \<Rightarrow>
                (let createdItem = itemId;
                     s2 = logged (Debug_CreatedItemId createdItem) (setOutput itemId s1)
                 in addToProject_field api fieldName fieldOptionName projectId createdItem s2))
      else
        (let title = (case issue of None \<Rightarrow> None | Some i \<Rightarrow> html_url i);
             s1 = requested (AddDraftIssueToProject projectId title) (logged Info_CreatingDraftIssue s)
         in case addDraftIssueToProject api projectId title of
              Inl msg \<Rightarrow> (Inl (GraphqlError msg), s1)
            | Inr itemId \<Rightarrow>
                (let createdItem = itemId;
                     s2 = logged (Debug_CreatedItemId createdItem) (setOutput itemId s1)
                 in addToProject_field api fieldName fieldOptionName projectId createdItem s2)))"

subsection \<open>The project, lines 117 to 155\<close>

text \<open>\<open>idResp[ownerTypeQuery]\<close>: the member of the response under that key.\<close>

definition member_of :: "ProjectNodeIDResponse \<Rightarrow> string \<Rightarrow> project_owner option" where
  "member_of idResp key =
     (if key = ''organization'' then organization idResp
      else if key = ''user'' then user idResp
      else None)"

text \<open>
  Line 151, \<open>idResp[ownerTypeQuery]?.projectV2.id\<close>. The optional chaining guards the
  member only: without the member the value is \<open>undefined\<close>; with the member and without
  a project, reading \<open>id\<close> raises a \<open>TypeError\<close>.
\<close>

definition projectIdOf :: "ProjectNodeIDResponse \<Rightarrow> string \<Rightarrow> error + string option" where
  "projectIdOf idResp ownerTypeQuery =
     (case member_of idResp ownerTypeQuery of
        None \<Rightarrow> Inr None
      | Some owner \<Rightarrow>
          (case projectV2 owner of
             None \<Rightarrow> Inl TypeError
           | Some project \<Rightarrow> Inr (Some project)))"

definition addToProject_project ::
  "remote \<Rightarrow> string \<Rightarrow> string \<Rightarrow> string \<Rightarrow> webhook_issue option \<Rightarrow> string option
     \<Rightarrow> run_state \<Rightarrow> (error + unit) \<times> run_state" where
  "addToProject_project api projectUrl fieldName fieldOptionName issue issueOwnerName s =
     (let s1 = logged (Debug_ProjectUrl projectUrl) s in
      case urlParse projectUrl of
        None \<Rightarrow> (Inl (InvalidProjectUrl projectUrl), s1)
      | Some urlMatch \<Rightarrow>
          (let projectOwnerName = group_ownerName urlMatch;
               projectNumber = parseInt10 (group_projectNumber urlMatch);
               ownerType = group_ownerType urlMatch
           in case mustGetOwnerTypeQuery (Some ownerType) of
                Inl e \<Rightarrow> (Inl e, s1)
              | Inr ownerTypeQuery \<Rightarrow>
                  (let s2 = logged (Debug_ProjectOwnerType ownerType)
                              (logged (Debug_ProjectNumber projectNumber)
                                 (logged (Debug_ProjectOwner projectOwnerName) s1));
                       s3 = requested (GetProject ownerTypeQuery projectOwnerName projectNumber) s2
                   in case getProject api ownerTypeQuery projectOwnerName projectNumber of
                        Inl msg \<Rightarrow> (Inl (GraphqlError msg), s3)
                      | Inr idResp \<Rightarrow>
                          (case projectIdOf idResp ownerTypeQuery of
                             Inl e \<Rightarrow> (Inl e, s3)
                           | Inr projectId \<Rightarrow>
                               (let contentId = (case issue of None \<Rightarrow> None | Some i \<Rightarrow> node_id i);
                                    s4 = logged (Debug_ContentId contentId)
                                           (logged (Debug_ProjectNodeId projectId) s3)
                                in addToProject_item api fieldName fieldOptionName issue
                                     issueOwnerName projectOwnerName projectId contentId s4)))))"

subsection \<open>The whole function, lines 77 to 307\<close>

definition addToProject :: "remote \<Rightarrow> inputs \<Rightarrow> payload \<Rightarrow> (error + unit) \<times> run_state" where
  "addToProject api inp pl =
     (let projectUrl = input_project_url inp;
          fieldName = input_field_name inp;
          fieldOptionName = input_field_option inp;
          labeled = labeledOf inp;
          labelOperator = labelOperatorOf inp;
          issue = issueOf pl;
          issueLabels = issueLabelsOf pl;
          issueOwnerName = payload_repository_owner_login pl;
          s0 = logged (Debug_IssueOwner issueOwnerName) start
      in case labelFilter labelOperator labeled issueLabels (map_option number issue) of
           Some skip \<Rightarrow> (Inr (), logged skip s0)
         | None \<Rightarrow>
             addToProject_project api projectUrl fieldName fieldOptionName issue issueOwnerName s0)"

section \<open>Observing a run\<close>

text \<open>
  A run is the pair of what \<open>addToProject\<close> returned or raised and the effects it had.
  It was skipped when one of the three skip lines of the label filter is in its log; it
  proceeded past the filter when the line \<open>Project URL: ...\<close> of line 117, the first
  statement after the filter, is.
\<close>

fun isSkip :: "log_entry \<Rightarrow> bool" where
  "isSkip (Info_SkipNotAllLabels n ls) = True"
| "isSkip (Info_SkipHasLabel n ls) = True"
| "isSkip (Info_SkipNoLabel n ls) = True"
| "isSkip e = False"

fun isProjectUrl :: "log_entry \<Rightarrow> bool" where
  "isProjectUrl (Debug_ProjectUrl u) = True"
| "isProjectUrl e = False"

definition skipped :: "(error + unit) \<times> run_state \<Rightarrow> bool" where
  "skipped r = list_ex isSkip (logs (snd r))"

definition proceeds :: "(error + unit) \<times> run_state \<Rightarrow> bool" where
  "proceeds r = list_ex isProjectUrl (logs (snd r))"

text \<open>The two mutations that create the project item, and the one that sets the iteration.\<close>

fun isItemCreation :: "call \<Rightarrow> bool" where
  "isItemCreation (AddIssueToProject p c) = True"
| "isItemCreation (AddDraftIssueToProject p t) = True"
| "isItemCreation c = False"

fun isIterationUpdate :: "call \<Rightarrow> bool" where
  "isIterationUpdate (AddIssueToIteration p i f v) = True"
| "isIterationUpdate c = False"

section \<open>Example runs\<close>

text \<open>
  A remote that accepts every request: the project \<open>P_1\<close> of an organization, a field
  \<open>F_1\<close> with the options \<open>Todo\<close> and \<open>Done\<close>, and the two iterations of the
  specification's example. The issue is number 5 of a repository of \<open>acme\<close>, labelled
  \<open>Bug\<close> and \<open>Docs\<close>.
\<close>

definition demo_api :: remote where
  "demo_api =
     \<lparr>getProject = (\<lambda>k n j. Inr \<lparr>organization = Some \<lparr>projectV2 = Some ''P_1''\<rparr>, user = None\<rparr>),
      addIssueToProject = (\<lambda>p c. Inr ''I_1''),
      addDraftIssueToProject = (\<lambda>p t. Inr ''D_1''),
      getOptionField = (\<lambda>p f. Inr \<lparr>field_id = ''F_1'',
         options = [\<lparr>option_id = ''o1'', option_name = ''Todo''\<rparr>,
                    \<lparr>option_id = ''o2'', option_name = ''Done''\<rparr>]\<rparr>),
      addIssueToColumn = (\<lambda>p i f v. Inr i),
      getIteration = (\<lambda>p. Inr \<lparr>iteration_field_id = ''F_2'',
         iterations = [\<lparr>startDate = ''2024-01-01'', iteration_id = ''a''\<rparr>,
                       \<lparr>startDate = ''2024-02-01'', iteration_id = ''b''\<rparr>]\<rparr>),
      addIssueToIteration = (\<lambda>p i f v. Inr i)\<rparr>"

definition demo_url :: string where
  "demo_url = ''https://github.com/orgs/acme/projects/7''"

definition demo_inputs :: "string \<Rightarrow> string \<Rightarrow> string \<Rightarrow> string \<Rightarrow> inputs" where
  "demo_inputs url option labeled operator =
     \<lparr>input_project_url = url, input_github_token = ''token'',
      input_field_name = ''Status'', input_field_option = option,
      input_labeled = labeled, input_label_operator = operator\<rparr>"

definition demo_payload :: payload where
  "demo_payload =
     \<lparr>payload_issue = Some \<lparr>number = 5, node_id = Some ''N_5'',
         html_url = Some ''https://github.com/acme/shop/issues/5'',
         labels = Some [''Bug'', ''Docs'']\<rparr>,
      payload_pull_request = None,
      payload_repository_owner_login = Some ''acme''\<rparr>"

section \<open>The effects of each part of a run\<close>

text \<open>
  Each part of \<open>addToProject\<close> appends to the requests of the state it is given; what it
  appends and what it returns depend on the replies only.
\<close>

lemmas state_defs = Let_def requested_def logged_def setOutput_def

lemma iteration_calls:
  "calls (snd (addToProject_iteration api p item s)) =
     calls s @ GetIteration p #
       (case getIteration api p of
          Inl msg \<Rightarrow> []
        | Inr resp \<Rightarrow>
            (case latestIteration (iterations resp) of
               Inl e \<Rightarrow> []
             | Inr l \<Rightarrow> [AddIssueToIteration p item (iteration_field_id resp) (iteration_id l)]))"
  by (simp add: addToProject_iteration_def state_defs split: sum.splits)

lemma field_calls:
  "calls (snd (addToProject_field api fn fo p item s)) =
     calls s @ GetOptionField p fn #
       (case getOptionField api p fn of
          Inl msg \<Rightarrow> []
        | Inr resp \<Rightarrow>
            AddIssueToColumn p item (field_id resp)
              (map_option option_id (find (\<lambda>option. option_name option = fo) (options resp))) #
            (case addIssueToColumn api p item (field_id resp)
                    (map_option option_id (find (\<lambda>option. option_name option = fo) (options resp))) of
               Inl msg \<Rightarrow> []
             | Inr i \<Rightarrow> calls (snd (addToProject_iteration api p item start))))"
  by (simp add: addToProject_field_def state_defs iteration_calls start_def split: sum.splits)

lemma item_calls:
  "calls (snd (addToProject_item api fn fo issue owner powner p c s)) =
     calls s @
       (if owner = Some powner then
          AddIssueToProject p c #
            (case addIssueToProject api p c of
               Inl msg \<Rightarrow> []
             | Inr i \<Rightarrow> calls (snd (addToProject_field api fn fo p i start)))
        else
          AddDraftIssueToProject p (case issue of None \<Rightarrow> None | Some i \<Rightarrow> html_url i) #
            (case addDraftIssueToProject api p (case issue of None \<Rightarrow> None | Some i \<Rightarrow> html_url i) of
               Inl msg \<Rightarrow> []
             | Inr i \<Rightarrow> calls (snd (addToProject_field api fn fo p i start))))"
  by (simp add: addToProject_item_def state_defs field_calls start_def split: sum.splits)

lemma project_calls:
  "calls (snd (addToProject_project api url fn fo issue owner s)) =
     calls s @
       (case urlParse url of
          None \<Rightarrow> []
        | Some m \<Rightarrow>
            (case mustGetOwnerTypeQuery (Some (group_ownerType m)) of
               Inl e \<Rightarrow> []
             | Inr k \<Rightarrow>
                 GetProject k (group_ownerName m) (parseInt10 (group_projectNumber m)) #
                   (case getProject api k (group_ownerName m) (parseInt10 (group_projectNumber m)) of
                      Inl msg \<Rightarrow> []
                    | Inr resp \<Rightarrow>
                        (case projectIdOf resp k of
                           Inl e \<Rightarrow> []
                         | Inr projectId \<Rightarrow>
                             calls (snd (addToProject_item api fn fo issue owner (group_ownerName m)
                               projectId (case issue of None \<Rightarrow> None | Some i \<Rightarrow> node_id i)
                               start))))))"
  by (simp add: addToProject_project_def state_defs item_calls start_def split: sum.splits option.splits)

lemma run_calls:
  "calls (snd (addToProject api inp pl)) =
     (case labelFilter (labelOperatorOf inp) (labeledOf inp) (issueLabelsOf pl)
             (map_option number (issueOf pl)) of
        Some e \<Rightarrow> []
      | None \<Rightarrow>
          calls (snd (addToProject_project api (input_project_url inp) (input_field_name inp)
            (input_field_option inp) (issueOf pl) (payload_repository_owner_login pl) start)))"
  by (simp add: addToProject_def state_defs project_calls start_def split: option.splits)

lemma iteration_result:
  "fst (addToProject_iteration api p item s) =
     (case getIteration api p of
        Inl msg \<Rightarrow> Inl (GraphqlError msg)
      | Inr resp \<Rightarrow>
          (case latestIteration (iterations resp) of
             Inl e \<Rightarrow> Inl e
           | Inr l \<Rightarrow>
               (case addIssueToIteration api p item (iteration_field_id resp) (iteration_id l) of
                  Inl msg \<Rightarrow> Inl (GraphqlError msg)
                | Inr i \<Rightarrow> Inr ())))"
  by (simp add: addToProject_iteration_def state_defs split: sum.splits)

lemma field_result:
  "fst (addToProject_field api fn fo p item s) =
     (case getOptionField api p fn of
        Inl msg \<Rightarrow> Inl (GraphqlError msg)
      | Inr resp \<Rightarrow>
          (case addIssueToColumn api p item (field_id resp)
                  (map_option option_id (find (\<lambda>option. option_name option = fo) (options resp))) of
             Inl msg \<Rightarrow> Inl (GraphqlError msg)
           | Inr i \<Rightarrow> fst (addToProject_iteration api p item start)))"
  by (simp add: addToProject_field_def state_defs iteration_result split: sum.splits)

lemma item_result:
  "fst (addToProject_item api fn fo issue owner powner p c s) =
     (if owner = Some powner then
        (case addIssueToProject api p c of
           Inl msg \<Rightarrow> Inl (GraphqlError msg)
         | Inr i \<Rightarrow> fst (addToProject_field api fn fo p i start))
      else
        (case addDraftIssueToProject api p (case issue of None \<Rightarrow> None | Some i \<Rightarrow> html_url i) of
           Inl msg \<Rightarrow> Inl (GraphqlError msg)
         | Inr i \<Rightarrow> fst (addToProject_field api fn fo p i start)))"
  by (simp add: addToProject_item_def state_defs field_result split: sum.splits)

lemma project_result:
  "fst (addToProject_project api url fn fo issue owner s) =
     (case urlParse url of
        None \<Rightarrow> Inl (InvalidProjectUrl url)
      | Some m \<Rightarrow>
          (case mustGetOwnerTypeQuery (Some (group_ownerType m)) of
             Inl e \<Rightarrow> Inl e
           | Inr k \<Rightarrow>
               (case getProject api k (group_ownerName m) (parseInt10 (group_projectNumber m)) of
                  Inl msg \<Rightarrow> Inl (GraphqlError msg)
                | Inr resp \<Rightarrow>
                    (case projectIdOf resp k of
                       Inl e \<Rightarrow> Inl e
                     | Inr projectId \<Rightarrow>
                         fst (addToProject_item api fn fo issue owner (group_ownerName m)
                           projectId (case issue of None \<Rightarrow> None | Some i \<Rightarrow> node_id i)
                           start)))))"
  by (simp add: addToProject_project_def state_defs item_result split: sum.splits option.splits)

lemma run_result:
  "fst (addToProject api inp pl) =
     (case labelFilter (labelOperatorOf inp) (labeledOf inp) (issueLabelsOf pl)
             (map_option number (issueOf pl)) of
        Some e \<Rightarrow> Inr ()
      | None \<Rightarrow>
          fst (addToProject_project api (input_project_url inp) (input_field_name inp)
            (input_field_option inp) (issueOf pl) (payload_repository_owner_login pl) start))"
  by (simp add: addToProject_def state_defs project_result split: option.splits)

lemma iteration_logs:
  "list_ex isSkip (logs (snd (addToProject_iteration api p item s))) = list_ex isSkip (logs s)"
  "list_ex isProjectUrl (logs (snd (addToProject_iteration api p item s))) = list_ex isProjectUrl (logs s)"
  by (simp_all add: addToProject_iteration_def state_defs split: sum.splits)

lemma field_logs:
  "list_ex isSkip (logs (snd (addToProject_field api fn fo p item s))) = list_ex isSkip (logs s)"
  "list_ex isProjectUrl (logs (snd (addToProject_field api fn fo p item s))) = list_ex isProjectUrl (logs s)"
  by (simp_all add: addToProject_field_def state_defs iteration_logs split: sum.splits)

lemma item_logs:
  "list_ex isSkip (logs (snd (addToProject_item api fn fo issue owner powner p c s))) = list_ex isSkip (logs s)"
  "list_ex isProjectUrl (logs (snd (addToProject_item api fn fo issue owner powner p c s))) = list_ex isProjectUrl (logs s)"
  by (simp_all add: addToProject_item_def state_defs field_logs split: sum.splits)

lemma project_logs:
  "list_ex isSkip (logs (snd (addToProject_project api url fn fo issue owner s))) = list_ex isSkip (logs s)"
  "list_ex isProjectUrl (logs (snd (addToProject_project api url fn fo issue owner s)))"
  by (simp_all add: addToProject_project_def state_defs item_logs split: sum.splits option.splits)

lemma labelFilter_isSkip: "labelFilter op ls ils n = Some e \<Longrightarrow> isSkip e \<and> \<not> isProjectUrl e"
  by (auto simp: labelFilter_def split: if_splits)

lemma skipped_iff:
  "skipped (addToProject api inp pl) \<longleftrightarrow>
     labelFilter (labelOperatorOf inp) (labeledOf inp) (issueLabelsOf pl)
       (map_option number (issueOf pl)) \<noteq> None"
  by (auto simp: skipped_def addToProject_def state_defs project_logs start_def
        dest: labelFilter_isSkip split: option.splits)

lemma proceeds_iff:
  "proceeds (addToProject api inp pl) \<longleftrightarrow>
     labelFilter (labelOperatorOf inp) (labeledOf inp) (issueLabelsOf pl)
       (map_option number (issueOf pl)) = None"
  by (auto simp: proceeds_def addToProject_def state_defs project_logs start_def
        dest: labelFilter_isSkip split: option.splits)

lemma start_simps [simp]: "calls start = []" "outputs start = []" "logs start = []"
  by (simp_all add: start_def)

lemma matchOwnerPath_ownerType:
  "matchOwnerPath ty s = Some m \<Longrightarrow> group_ownerType m = ty"
  by (auto simp: matchOwnerPath_def Let_def split: option.splits if_splits)

lemma matchHost_ownerType:
  "matchHost s = Some m \<Longrightarrow> group_ownerType m = ''orgs'' \<or> group_ownerType m = ''users''"
  by (auto simp: matchHost_def split: option.splits dest: matchOwnerPath_ownerType)

lemma urlParse_ownerType:
  "urlParse url = Some m \<Longrightarrow> group_ownerType m = ''orgs'' \<or> group_ownerType m = ''users''"
  by (auto simp: urlParse_def split: option.splits dest: matchHost_ownerType)

lemma urlParse_supported:
  assumes "urlParse url = Some m"
  shows "\<exists>k. mustGetOwnerTypeQuery (Some (group_ownerType m)) = Inr k"
  using urlParse_ownerType [OF assms] by (auto simp: mustGetOwnerTypeQuery_def)

lemma projectIdOf_error:
  "projectIdOf resp k = Inl e \<longleftrightarrow>
     e = TypeError \<and> (\<exists>owner. member_of resp k = Some owner \<and> projectV2 owner = None)"
  by (auto simp: projectIdOf_def split: option.splits)

lemma projectIdOf_undefined:
  "projectIdOf resp k = Inr None \<longleftrightarrow> member_of resp k = None"
  by (auto simp: projectIdOf_def split: option.splits)

lemma project_cases [case_names invalid rejected projectless resolved]:
  obtains
    (invalid)
      "urlParse url = None"
      "fst (addToProject_project api url fn fo issue owner start) = Inl (InvalidProjectUrl url)"
      "calls (snd (addToProject_project api url fn fo issue owner start)) = []"
  | (rejected) m k msg where
      "urlParse url = Some m"
      "mustGetOwnerTypeQuery (Some (group_ownerType m)) = Inr k"
      "getProject api k (group_ownerName m) (parseInt10 (group_projectNumber m)) = Inl msg"
      "fst (addToProject_project api url fn fo issue owner start) = Inl (GraphqlError msg)"
      "calls (snd (addToProject_project api url fn fo issue owner start)) =
         [GetProject k (group_ownerName m) (parseInt10 (group_projectNumber m))]"
  | (projectless) m k resp where
      "urlParse url = Some m"
      "mustGetOwnerTypeQuery (Some (group_ownerType m)) = Inr k"
      "getProject api k (group_ownerName m) (parseInt10 (group_projectNumber m)) = Inr resp"
      "projectIdOf resp k = Inl TypeError"
      "fst (addToProject_project api url fn fo issue owner start) = Inl TypeError"
      "calls (snd (addToProject_project api url fn fo issue owner start)) =
         [GetProject k (group_ownerName m) (parseInt10 (group_projectNumber m))]"
  | (resolved) m k resp projectId where
      "urlParse url = Some m"
      "mustGetOwnerTypeQuery (Some (group_ownerType m)) = Inr k"
      "getProject api k (group_ownerName m) (parseInt10 (group_projectNumber m)) = Inr resp"
      "projectIdOf resp k = Inr projectId"
      "fst (addToProject_project api url fn fo issue owner start) =
         fst (addToProject_item api fn fo issue owner (group_ownerName m) projectId
                (case issue of None \<Rightarrow> None | Some i \<Rightarrow> node_id i) start)"
      "calls (snd (addToProject_project api url fn fo issue owner start)) =
         GetProject k (group_ownerName m) (parseInt10 (group_projectNumber m)) #
         calls (snd (addToProject_item api fn fo issue owner (group_ownerName m) projectId
                (case issue of None \<Rightarrow> None | Some i \<Rightarrow> node_id i) start))"
proof (cases "urlParse url")
  case None
  then show ?thesis
    by (intro invalid) (simp_all add: project_calls project_result)
next
  case (Some m)
  note m = this
  from urlParse_supported [OF m]
  obtain k where k: "mustGetOwnerTypeQuery (Some (group_ownerType m)) = Inr k"
    by blast
  show ?thesis
  proof (cases "getProject api k (group_ownerName m) (parseInt10 (group_projectNumber m))")
    case (Inl msg)
    with m k show ?thesis
      by (intro rejected) (simp_all add: project_calls project_result)
  next
    case (Inr resp)
    note resp = this
    show ?thesis
    proof (cases "projectIdOf resp k")
      case (Inl e)
      then have "projectIdOf resp k = Inl TypeError"
        by (simp add: projectIdOf_error)
      with m k resp show ?thesis
        by (intro projectless) (simp_all add: project_calls project_result)
    next
      case (Inr projectId)
      with m k resp show ?thesis
        by (intro resolved) (simp_all add: project_calls project_result)
    qed
  qed
qed

lemma run_cases [case_names skip pass]:
  obtains
    (skip) e where
      "labelFilter (labelOperatorOf inp) (labeledOf inp) (issueLabelsOf pl)
         (map_option number (issueOf pl)) = Some e"
      "fst (addToProject api inp pl) = Inr ()"
      "calls (snd (addToProject api inp pl)) = []"
      "outputs (snd (addToProject api inp pl)) = []"
  | (pass)
      "labelFilter (labelOperatorOf inp) (labeledOf inp) (issueLabelsOf pl)
         (map_option number (issueOf pl)) = None"
      "fst (addToProject api inp pl) =
         fst (addToProject_project api (input_project_url inp) (input_field_name inp)
            (input_field_option inp) (issueOf pl) (payload_repository_owner_login pl) start)"
      "calls (snd (addToProject api inp pl)) =
         calls (snd (addToProject_project api (input_project_url inp) (input_field_name inp)
            (input_field_option inp) (issueOf pl) (payload_repository_owner_login pl) start))"
proof (cases "labelFilter (labelOperatorOf inp) (labeledOf inp) (issueLabelsOf pl)
         (map_option number (issueOf pl))")
  case None
  then show ?thesis
    by (intro pass) (simp_all add: run_calls run_result)
next
  case (Some e)
  then show ?thesis
    by (intro skip) (simp_all add: run_calls run_result, simp add: addToProject_def state_defs)
qed

section \<open>The label filter\<close>

text \<open>
  Claim C2. With the label operator \<open>not\<close>, a run proceeds past the label filter exactly
  when no label is configured or no configured label is among the labels of the content;
  a run that does not proceed is a skip: it returns normally and has sent no request.
\<close>

theorem label_filter_not:
  assumes "labelOperatorOf inp = ''not''"
  shows "(proceeds (addToProject api inp pl) \<longleftrightarrow>
            labeledOf inp = [] \<or> set (labeledOf inp) \<inter> set (issueLabelsOf pl) = {}) \<and>
         (\<not> proceeds (addToProject api inp pl) \<longrightarrow>
            skipped (addToProject api inp pl) \<and> fst (addToProject api inp pl) = Inr () \<and>
            calls (snd (addToProject api inp pl)) = [])"
proof -
  have "labelFilter ''not'' (labeledOf inp) (issueLabelsOf pl) (map_option number (issueOf pl)) = None \<longleftrightarrow>
      labeledOf inp = [] \<or> set (labeledOf inp) \<inter> set (issueLabelsOf pl) = {}"
    by (auto simp: labelFilter_def list_ex_iff)
  moreover have "\<not> proceeds (addToProject api inp pl) \<longrightarrow>
      fst (addToProject api inp pl) = Inr () \<and> calls (snd (addToProject api inp pl)) = []"
    by (rule run_cases[where api=api and inp=inp and pl=pl]) (simp_all add: proceeds_iff)
  ultimately show ?thesis
    using assms by (simp add: proceeds_iff skipped_iff)
qed

theorem label_filter_not_witness:
  "labelOperatorOf (demo_inputs demo_url ''Todo'' ''bug, wontfix'' '' NOT'') = ''not'' \<and>
   labeledOf (demo_inputs demo_url ''Todo'' ''bug, wontfix'' '' NOT'') = [''bug'', ''wontfix''] \<and>
   issueLabelsOf demo_payload = [''bug'', ''docs''] \<and>
   \<not> proceeds (addToProject demo_api (demo_inputs demo_url ''Todo'' ''bug, wontfix'' '' NOT'') demo_payload) \<and>
   skipped (addToProject demo_api (demo_inputs demo_url ''Todo'' ''bug, wontfix'' '' NOT'') demo_payload) \<and>
   fst (addToProject demo_api (demo_inputs demo_url ''Todo'' ''bug, wontfix'' '' NOT'') demo_payload) = Inr () \<and>
   calls (snd (addToProject demo_api (demo_inputs demo_url ''Todo'' ''bug, wontfix'' '' NOT'') demo_payload)) = []"
proof -
  have operator: "labelOperatorOf (demo_inputs demo_url ''Todo'' ''bug, wontfix'' '' NOT'') = ''not''"
    by code_simp
  have configured: "labeledOf (demo_inputs demo_url ''Todo'' ''bug, wontfix'' '' NOT'') = [''bug'', ''wontfix'']"
    by code_simp
  have present: "issueLabelsOf demo_payload = [''bug'', ''docs'']"
    by code_simp
  show ?thesis
    using label_filter_not [OF operator, of demo_api demo_payload] operator
    by (simp add: configured present)
qed

text \<open>
  Claim C3. With the label operator \<open>and\<close>, a run proceeds past the label filter exactly
  when every configured label is among the labels of the content, so that it always
  proceeds when no label is configured; a run that does not proceed is a skip: it returns
  normally and has sent no request.
\<close>

theorem label_filter_and:
  assumes "labelOperatorOf inp = ''and''"
  shows "(proceeds (addToProject api inp pl) \<longleftrightarrow>
            set (labeledOf inp) \<subseteq> set (issueLabelsOf pl)) \<and>
         (\<not> proceeds (addToProject api inp pl) \<longrightarrow>
            skipped (addToProject api inp pl) \<and> fst (addToProject api inp pl) = Inr () \<and>
            calls (snd (addToProject api inp pl)) = [])"
proof -
  have "labelFilter ''and'' (labeledOf inp) (issueLabelsOf pl) (map_option number (issueOf pl)) = None \<longleftrightarrow>
      set (labeledOf inp) \<subseteq> set (issueLabelsOf pl)"
    by (auto simp: labelFilter_def list_all_iff)
  moreover have "\<not> proceeds (addToProject api inp pl) \<longrightarrow>
      fst (addToProject api inp pl) = Inr () \<and> calls (snd (addToProject api inp pl)) = []"
    by (rule run_cases[where api=api and inp=inp and pl=pl]) (simp_all add: proceeds_iff)
  ultimately show ?thesis
    using assms by (simp add: proceeds_iff skipped_iff)
qed

theorem label_filter_and_witness:
  "labelOperatorOf (demo_inputs demo_url ''Todo'' ''Docs,BUG'' ''and'') = ''and'' \<and>
   labeledOf (demo_inputs demo_url ''Todo'' ''Docs,BUG'' ''and'') = [''docs'', ''bug''] \<and>
   issueLabelsOf demo_payload = [''bug'', ''docs''] \<and>
   proceeds (addToProject demo_api (demo_inputs demo_url ''Todo'' ''Docs,BUG'' ''and'') demo_payload)"
proof -
  have operator: "labelOperatorOf (demo_inputs demo_url ''Todo'' ''Docs,BUG'' ''and'') = ''and''"
    by code_simp
  have configured: "labeledOf (demo_inputs demo_url ''Todo'' ''Docs,BUG'' ''and'') = [''docs'', ''bug'']"
    by code_simp
  have present: "issueLabelsOf demo_payload = [''bug'', ''docs'']"
    by code_simp
  show ?thesis
    using label_filter_and [OF operator, of demo_api demo_payload] operator
    by (simp add: configured present)
qed

text \<open>
  Claim C4. With any label operator other than \<open>and\<close> and \<open>not\<close>, a run proceeds past
  the label filter exactly when no label is configured or at least one configured label is
  among the labels of the content.
\<close>

theorem label_filter_default:
  assumes "labelOperatorOf inp \<noteq> ''and''" and "labelOperatorOf inp \<noteq> ''not''"
  shows "proceeds (addToProject api inp pl) \<longleftrightarrow>
            labeledOf inp = [] \<or> set (labeledOf inp) \<inter> set (issueLabelsOf pl) \<noteq> {}"
  using assms by (auto simp: proceeds_iff labelFilter_def list_ex_iff)

theorem label_filter_default_witness:
  "labelOperatorOf (demo_inputs demo_url ''Todo'' ''wontfix, docs'' ''or'') \<noteq> ''and'' \<and>
   labelOperatorOf (demo_inputs demo_url ''Todo'' ''wontfix, docs'' ''or'') \<noteq> ''not'' \<and>
   labeledOf (demo_inputs demo_url ''Todo'' ''wontfix, docs'' ''or'') = [''wontfix'', ''docs''] \<and>
   issueLabelsOf demo_payload = [''bug'', ''docs''] \<and>
   proceeds (addToProject demo_api (demo_inputs demo_url ''Todo'' ''wontfix, docs'' ''or'') demo_payload)"
proof -
  have operator: "labelOperatorOf (demo_inputs demo_url ''Todo'' ''wontfix, docs'' ''or'') = ''or''"
    by code_simp
  have configured: "labeledOf (demo_inputs demo_url ''Todo'' ''wontfix, docs'' ''or'') = [''wontfix'', ''docs'']"
    by code_simp
  have present: "issueLabelsOf demo_payload = [''bug'', ''docs'']"
    by code_simp
  show ?thesis
    using label_filter_default [of "demo_inputs demo_url ''Todo'' ''wontfix, docs'' ''or''"
        demo_api demo_payload]
    by (simp add: operator configured present)
qed

section \<open>The owner kind\<close>

text \<open>
  Claim C8. \<open>mustGetOwnerTypeQuery\<close> returns \<open>organization\<close> for \<open>orgs\<close> and \<open>user\<close>
  for \<open>users\<close>, and raises for every other argument, \<open>undefined\<close> included.
\<close>

theorem mustGetOwnerTypeQuery_values:
  "mustGetOwnerTypeQuery (Some ''orgs'') = Inr ''organization'' \<and>
   mustGetOwnerTypeQuery (Some ''users'') = Inr ''user'' \<and>
   (\<forall>ownerType. ownerType \<noteq> Some ''orgs'' \<and> ownerType \<noteq> Some ''users'' \<longrightarrow>
      mustGetOwnerTypeQuery ownerType = Inl (UnsupportedOwnerType ownerType))"
  by (simp add: mustGetOwnerTypeQuery_def)

theorem mustGetOwnerTypeQuery_values_witness:
  "mustGetOwnerTypeQuery None = Inl (UnsupportedOwnerType None) \<and>
   mustGetOwnerTypeQuery (Some ''Orgs'') = Inl (UnsupportedOwnerType (Some ''Orgs''))"
  using mustGetOwnerTypeQuery_values by simp

section \<open>The order of the label filter and the URL check\<close>

text \<open>
  Claim C10. A run that the label filter skips returns normally, sends no request and
  sets no output, whatever the project URL is: the filter runs before the URL is matched.
  A run that is not skipped raises the error of an invalid project URL when the URL does
  not match.
\<close>

theorem skip_precedes_url_check:
  "(skipped (addToProject api inp pl) \<longrightarrow>
      fst (addToProject api inp pl) = Inr () \<and> calls (snd (addToProject api inp pl)) = [] \<and>
      outputs (snd (addToProject api inp pl)) = []) \<and>
   (\<not> skipped (addToProject api inp pl) \<and> urlParse (input_project_url inp) = None \<longrightarrow>
      fst (addToProject api inp pl) = Inl (InvalidProjectUrl (input_project_url inp)))"
  by (rule run_cases[where api=api and inp=inp and pl=pl])
     (simp_all add: skipped_iff project_result)

theorem skip_precedes_url_check_witness:
  "urlParse (input_project_url (demo_inputs ''github.com/acme/projects'' ''Todo'' ''wontfix'' '''')) = None \<and>
   skipped (addToProject demo_api (demo_inputs ''github.com/acme/projects'' ''Todo'' ''wontfix'' '''') demo_payload) \<and>
   fst (addToProject demo_api (demo_inputs ''github.com/acme/projects'' ''Todo'' ''wontfix'' '''') demo_payload) = Inr () \<and>
   calls (snd (addToProject demo_api (demo_inputs ''github.com/acme/projects'' ''Todo'' ''wontfix'' '''') demo_payload)) = [] \<and>
   \<not> skipped (addToProject demo_api (demo_inputs ''github.com/acme/projects'' ''Todo'' '''' '''') demo_payload) \<and>
   fst (addToProject demo_api (demo_inputs ''github.com/acme/projects'' ''Todo'' '''' '''') demo_payload) =
     Inl (InvalidProjectUrl ''github.com/acme/projects'')"
proof -
  have skip: "skipped (addToProject demo_api (demo_inputs ''github.com/acme/projects'' ''Todo'' ''wontfix'' '''') demo_payload)"
    by code_simp
  have pass: "\<not> skipped (addToProject demo_api (demo_inputs ''github.com/acme/projects'' ''Todo'' '''' '''') demo_payload)"
    by code_simp
  have url: "urlParse ''github.com/acme/projects'' = None"
    by code_simp
  show ?thesis
    using skip_precedes_url_check [of demo_api "demo_inputs ''github.com/acme/projects'' ''Todo'' ''wontfix'' ''''" demo_payload]
      skip_precedes_url_check [of demo_api "demo_inputs ''github.com/acme/projects'' ''Todo'' '''' ''''" demo_payload]
      skip pass url
    by (simp add: demo_inputs_def)
qed

section \<open>The iteration\<close>

lemma foldl_later:
  "\<exists>pre post. x # xs = pre @ foldl later x xs # post \<and>
     (\<forall>i\<in>set pre. startDate i \<le> startDate (foldl later x xs)) \<and>
     (\<forall>i\<in>set post. startDate i < startDate (foldl later x xs))"
proof (induction xs rule: rev_induct)
  case Nil
  show ?case by (intro exI[of _ "[]"]) simp
next
  case (snoc y ys)
  then obtain pre post where d: "x # ys = pre @ foldl later x ys # post"
    and pre: "\<forall>i\<in>set pre. startDate i \<le> startDate (foldl later x ys)"
    and post: "\<forall>i\<in>set post. startDate i < startDate (foldl later x ys)"
    by blast
  show ?case
  proof (cases "startDate (foldl later x ys) > startDate y")
    case True
    then have "foldl later x (ys @ [y]) = foldl later x ys"
      by (simp add: later_def)
    moreover have "x # ys @ [y] = pre @ foldl later x ys # (post @ [y])"
      using d by simp
    moreover have "\<forall>i\<in>set (post @ [y]). startDate i < startDate (foldl later x ys)"
      using post True by auto
    ultimately show ?thesis
      using pre by metis
  next
    case False
    then have sel: "foldl later x (ys @ [y]) = y"
      by (simp add: later_def)
    have le: "startDate (foldl later x ys) \<le> startDate y"
      using False by simp
    have "\<forall>i\<in>set (x # ys). startDate i \<le> startDate y"
    proof
      fix i assume "i \<in> set (x # ys)"
      then have "i \<in> set pre \<or> i = foldl later x ys \<or> i \<in> set post"
        unfolding d by auto
      then show "startDate i \<le> startDate y"
        using pre post le by (auto intro: order_trans less_imp_le)
    qed
    moreover have "x # ys @ [y] = (x # ys) @ y # []"
      by simp
    ultimately show ?thesis
      unfolding sel by (metis empty_iff list.set(1))
  qed
qed

lemma latestIteration_last_maximum:
  assumes "its \<noteq> []"
  shows "\<exists>sel pre post. latestIteration its = Inr sel \<and> its = pre @ sel # post \<and>
     (\<forall>i\<in>set its. startDate i \<le> startDate sel) \<and>
     (\<forall>i\<in>set post. startDate i < startDate sel)"
proof -
  from assms obtain x xs where its: "its = x # xs"
    by (cases its) auto
  obtain pre post where d: "x # xs = pre @ foldl later x xs # post"
    and pre: "\<forall>i\<in>set pre. startDate i \<le> startDate (foldl later x xs)"
    and post: "\<forall>i\<in>set post. startDate i < startDate (foldl later x xs)"
    using foldl_later by blast
  have "\<forall>i\<in>set (x # xs). startDate i \<le> startDate (foldl later x xs)"
  proof
    fix i assume "i \<in> set (x # xs)"
    then have "i \<in> set pre \<or> i = foldl later x xs \<or> i \<in> set post"
      unfolding d by auto
    then show "startDate i \<le> startDate (foldl later x xs)"
      using pre post by (auto intro: less_imp_le)
  qed
  moreover have "latestIteration its = Inr (foldl later x xs)"
    by (simp add: its latestIteration_def)
  ultimately show ?thesis
    using d post unfolding its by blast
qed

lemma iteration_sent_iteration:
  assumes "AddIssueToIteration q i f v \<in> set (calls (snd (addToProject_iteration api p item start)))"
  shows "\<exists>resp sel. getIteration api q = Inr resp \<and> latestIteration (iterations resp) = Inr sel \<and>
       f = iteration_field_id resp \<and> v = iteration_id sel"
proof (cases "getIteration api p")
  case (Inl msg)
  with assms show ?thesis
    by (simp add: iteration_calls)
next
  case (Inr resp)
  note resp = this
  show ?thesis
  proof (cases "latestIteration (iterations resp)")
    case (Inl e)
    with assms resp show ?thesis
      by (simp add: iteration_calls)
  next
    case (Inr sel)
    with assms resp show ?thesis
      by (simp add: iteration_calls)
  qed
qed

lemma field_sent_iteration:
  "AddIssueToIteration q i f v \<in> set (calls (snd (addToProject_field api fn fo p item start))) \<Longrightarrow>
     \<exists>resp sel. getIteration api q = Inr resp \<and> latestIteration (iterations resp) = Inr sel \<and>
       f = iteration_field_id resp \<and> v = iteration_id sel"
  by (auto simp: field_calls split: sum.splits dest: iteration_sent_iteration)

lemma item_sent_iteration:
  "AddIssueToIteration q i f v \<in> set (calls (snd (addToProject_item api fn fo issue owner powner p c start))) \<Longrightarrow>
     \<exists>resp sel. getIteration api q = Inr resp \<and> latestIteration (iterations resp) = Inr sel \<and>
       f = iteration_field_id resp \<and> v = iteration_id sel"
  by (auto simp: item_calls split: sum.splits if_splits dest: field_sent_iteration)

lemma project_sent_iteration:
  "AddIssueToIteration q i f v \<in> set (calls (snd (addToProject_project api url fn fo issue owner start))) \<Longrightarrow>
     \<exists>resp sel. getIteration api q = Inr resp \<and> latestIteration (iterations resp) = Inr sel \<and>
       f = iteration_field_id resp \<and> v = iteration_id sel"
  by (rule project_cases[where api=api and url=url and fn=fn and fo=fo and issue=issue and owner=owner])
     (auto dest: item_sent_iteration)

lemma run_sent_iteration:
  "AddIssueToIteration q i f v \<in> set (calls (snd (addToProject api inp pl))) \<Longrightarrow>
     \<exists>resp sel. getIteration api q = Inr resp \<and> latestIteration (iterations resp) = Inr sel \<and>
       f = iteration_field_id resp \<and> v = iteration_id sel"
  by (rule run_cases[where api=api and inp=inp and pl=pl])
     (auto dest: project_sent_iteration)

text \<open>
  Claim C5, as the code has it. For every non-empty list of iterations the reduction
  returns an element whose \<open>startDate\<close> is maximal in the lexicographic order of strings,
  and among several elements with that maximal \<open>startDate\<close> it returns the one met last:
  every element after it is strictly smaller. The iteration id sent with the
  iteration-assignment mutation is the id of that element, and the list of the two
  iterations \<open>a\<close> of 2024-01-01 and \<open>b\<close> of 2024-02-01 gives \<open>b\<close>.
\<close>

theorem latest_iteration_selection:
  "(its \<noteq> [] \<longrightarrow>
      (\<exists>sel pre post. latestIteration its = Inr sel \<and> its = pre @ sel # post \<and>
         (\<forall>i\<in>set its. startDate i \<le> startDate sel) \<and>
         (\<forall>i\<in>set post. startDate i < startDate sel))) \<and>
   (AddIssueToIteration p item f v \<in> set (calls (snd (addToProject api inp pl))) \<longrightarrow>
      (\<exists>resp sel. getIteration api p = Inr resp \<and>
         latestIteration (iterations resp) = Inr sel \<and> v = iteration_id sel)) \<and>
   latestIteration [\<lparr>startDate = ''2024-01-01'', iteration_id = ''a''\<rparr>,
                    \<lparr>startDate = ''2024-02-01'', iteration_id = ''b''\<rparr>] =
     Inr \<lparr>startDate = ''2024-02-01'', iteration_id = ''b''\<rparr>"
proof (intro conjI impI)
  assume "its \<noteq> []"
  then show "\<exists>sel pre post. latestIteration its = Inr sel \<and> its = pre @ sel # post \<and>
         (\<forall>i\<in>set its. startDate i \<le> startDate sel) \<and>
         (\<forall>i\<in>set post. startDate i < startDate sel)"
    by (rule latestIteration_last_maximum)
next
  assume "AddIssueToIteration p item f v \<in> set (calls (snd (addToProject api inp pl)))"
  then show "\<exists>resp sel. getIteration api p = Inr resp \<and>
         latestIteration (iterations resp) = Inr sel \<and> v = iteration_id sel"
    by (blast dest: run_sent_iteration)
next
  show "latestIteration [\<lparr>startDate = ''2024-01-01'', iteration_id = ''a''\<rparr>,
                    \<lparr>startDate = ''2024-02-01'', iteration_id = ''b''\<rparr>] =
     Inr \<lparr>startDate = ''2024-02-01'', iteration_id = ''b''\<rparr>"
    by (simp add: latestIteration_def later_def)
qed

theorem latest_iteration_selection_witness:
  "[\<lparr>startDate = ''2024-03-01'', iteration_id = ''x''\<rparr>,
    \<lparr>startDate = ''2024-03-01'', iteration_id = ''y''\<rparr>,
    \<lparr>startDate = ''2024-01-15'', iteration_id = ''z''\<rparr>] \<noteq> [] \<and>
   latestIteration
     [\<lparr>startDate = ''2024-03-01'', iteration_id = ''x''\<rparr>,
      \<lparr>startDate = ''2024-03-01'', iteration_id = ''y''\<rparr>,
      \<lparr>startDate = ''2024-01-15'', iteration_id = ''z''\<rparr>] =
     Inr \<lparr>startDate = ''2024-03-01'', iteration_id = ''y''\<rparr> \<and>
   AddIssueToIteration (Some ''P_1'') ''I_1'' ''F_2'' ''b''
     \<in> set (calls (snd (addToProject demo_api (demo_inputs demo_url ''Todo'' '''' '''') demo_payload))) \<and>
   (\<exists>resp sel. getIteration demo_api (Some ''P_1'') = Inr resp \<and>
      latestIteration (iterations resp) = Inr sel \<and> ''b'' = iteration_id sel)"
proof -
  have sent: "AddIssueToIteration (Some ''P_1'') ''I_1'' ''F_2'' ''b''
     \<in> set (calls (snd (addToProject demo_api (demo_inputs demo_url ''Todo'' '''' '''') demo_payload)))"
    by code_simp
  have sel: "latestIteration
     [\<lparr>startDate = ''2024-03-01'', iteration_id = ''x''\<rparr>,
      \<lparr>startDate = ''2024-03-01'', iteration_id = ''y''\<rparr>,
      \<lparr>startDate = ''2024-01-15'', iteration_id = ''z''\<rparr>] =
     Inr \<lparr>startDate = ''2024-03-01'', iteration_id = ''y''\<rparr>"
    by (simp add: latestIteration_def later_def)
  show ?thesis
    using latest_iteration_selection [of "[\<lparr>startDate = ''2024-03-01'', iteration_id = ''x''\<rparr>,
      \<lparr>startDate = ''2024-03-01'', iteration_id = ''y''\<rparr>,
      \<lparr>startDate = ''2024-01-15'', iteration_id = ''z''\<rparr>]" "Some ''P_1''" "''I_1''" "''F_2''" "''b''"
      demo_api "demo_inputs demo_url ''Todo'' '''' ''''" demo_payload] sent sel
    by simp
qed

text \<open>
  The two iterations \<open>a\<close> and \<open>b\<close> with the same \<open>startDate\<close>: the reduction returns
  \<open>b\<close>, the one met last, and not \<open>a\<close>, the one met first.
\<close>

theorem latest_iteration_tie_takes_last:
  "latestIteration [\<lparr>startDate = ''2024-01-01'', iteration_id = ''a''\<rparr>,
                    \<lparr>startDate = ''2024-01-01'', iteration_id = ''b''\<rparr>] =
     Inr \<lparr>startDate = ''2024-01-01'', iteration_id = ''b''\<rparr> \<and>
   latestIteration [\<lparr>startDate = ''2024-01-01'', iteration_id = ''a''\<rparr>,
                    \<lparr>startDate = ''2024-01-01'', iteration_id = ''b''\<rparr>] \<noteq>
     Inr \<lparr>startDate = ''2024-01-01'', iteration_id = ''a''\<rparr>"
  by (simp add: latestIteration_def later_def)

lemma iteration_empty:
  assumes "getIteration api q = Inr resp" "iterations resp = []"
  shows "GetIteration q \<in> set (calls (snd (addToProject_iteration api p item start))) \<Longrightarrow>
     fst (addToProject_iteration api p item start) = Inl TypeError \<and>
     (\<forall>c\<in>set (calls (snd (addToProject_iteration api p item start))). \<not> isIterationUpdate c)"
  using assms by (auto simp: iteration_calls iteration_result latestIteration_def split: sum.splits)

lemma field_iteration_empty:
  assumes "getIteration api q = Inr resp" "iterations resp = []"
  shows "GetIteration q \<in> set (calls (snd (addToProject_field api fn fo p item start))) \<Longrightarrow>
     fst (addToProject_field api fn fo p item start) = Inl TypeError \<and>
     (\<forall>c\<in>set (calls (snd (addToProject_field api fn fo p item start))). \<not> isIterationUpdate c)"
  by (auto simp: field_calls field_result split: sum.splits dest: iteration_empty[OF assms])

lemma item_iteration_empty:
  assumes "getIteration api q = Inr resp" "iterations resp = []"
  shows "GetIteration q \<in> set (calls (snd (addToProject_item api fn fo issue owner powner p c start))) \<Longrightarrow>
     fst (addToProject_item api fn fo issue owner powner p c start) = Inl TypeError \<and>
     (\<forall>c\<in>set (calls (snd (addToProject_item api fn fo issue owner powner p c start))). \<not> isIterationUpdate c)"
  by (auto simp: item_calls item_result split: sum.splits if_splits dest: field_iteration_empty[OF assms])

lemma project_iteration_empty:
  assumes "getIteration api q = Inr resp" "iterations resp = []"
  shows "GetIteration q \<in> set (calls (snd (addToProject_project api url fn fo issue owner start))) \<Longrightarrow>
     fst (addToProject_project api url fn fo issue owner start) = Inl TypeError \<and>
     (\<forall>c\<in>set (calls (snd (addToProject_project api url fn fo issue owner start))). \<not> isIterationUpdate c)"
  by (rule project_cases[where api=api and url=url and fn=fn and fo=fo and issue=issue and owner=owner])
     (auto dest: item_iteration_empty[OF assms])

text \<open>
  Claim C7. A run that has sent the lookup of the iteration field and got a reply with an
  empty list of iterations raises the error of the reduction, and has sent no
  iteration-assignment mutation.
\<close>

theorem empty_iterations_fail:
  assumes "GetIteration p \<in> set (calls (snd (addToProject api inp pl)))"
    and "getIteration api p = Inr resp"
    and "iterations resp = []"
  shows "fst (addToProject api inp pl) = Inl TypeError \<and>
     (\<forall>c\<in>set (calls (snd (addToProject api inp pl))). \<not> isIterationUpdate c)"
  by (rule run_cases[where api=api and inp=inp and pl=pl])
     (use assms(1) in \<open>auto dest: project_iteration_empty[OF assms(2,3)]\<close>)

theorem empty_iterations_fail_witness:
  "GetIteration (Some ''P_1'')
     \<in> set (calls (snd (addToProject
          (demo_api\<lparr>getIteration := \<lambda>p. Inr \<lparr>iteration_field_id = ''F_2'', iterations = []\<rparr>\<rparr>)
          (demo_inputs demo_url ''Todo'' '''' '''') demo_payload))) \<and>
   fst (addToProject
          (demo_api\<lparr>getIteration := \<lambda>p. Inr \<lparr>iteration_field_id = ''F_2'', iterations = []\<rparr>\<rparr>)
          (demo_inputs demo_url ''Todo'' '''' '''') demo_payload) = Inl TypeError \<and>
   list_all (\<lambda>c. \<not> isIterationUpdate c)
     (calls (snd (addToProject
          (demo_api\<lparr>getIteration := \<lambda>p. Inr \<lparr>iteration_field_id = ''F_2'', iterations = []\<rparr>\<rparr>)
          (demo_inputs demo_url ''Todo'' '''' '''') demo_payload)))"
proof -
  have sent: "GetIteration (Some ''P_1'')
     \<in> set (calls (snd (addToProject
          (demo_api\<lparr>getIteration := \<lambda>p. Inr \<lparr>iteration_field_id = ''F_2'', iterations = []\<rparr>\<rparr>)
          (demo_inputs demo_url ''Todo'' '''' '''') demo_payload)))"
    by code_simp
  have reply: "getIteration
      (demo_api\<lparr>getIteration := \<lambda>p. Inr \<lparr>iteration_field_id = ''F_2'', iterations = []\<rparr>\<rparr>)
      (Some ''P_1'') = Inr \<lparr>iteration_field_id = ''F_2'', iterations = []\<rparr>"
    by simp
  have none: "iterations \<lparr>iteration_field_id = ''F_2'', iterations = []\<rparr> = []"
    by simp
  show ?thesis
    using empty_iterations_fail [OF sent reply none] sent
    by (simp add: list_all_iff)
qed

section \<open>The field option\<close>

lemma iteration_only:
  "filter isItemCreation (calls (snd (addToProject_iteration api p item start))) = []"
  "GetProject k n j \<notin> set (calls (snd (addToProject_iteration api p item start)))"
  "GetOptionField q f \<notin> set (calls (snd (addToProject_iteration api p item start)))"
  by (simp_all add: iteration_calls split: sum.splits)

lemma field_option_missing:
  assumes "getOptionField api q f = Inr resp"
    and "\<forall>option\<in>set (options resp). option_name option \<noteq> fo"
  shows "GetOptionField q f \<in> set (calls (snd (addToProject_field api fn fo p item start))) \<Longrightarrow>
     AddIssueToColumn q item (field_id resp) None
       \<in> set (calls (snd (addToProject_field api fn fo p item start)))"
  using assms
  by (auto simp: field_calls iteration_only find_None_iff split: sum.splits)

lemma item_option_missing:
  assumes "getOptionField api q f = Inr resp"
    and "\<forall>option\<in>set (options resp). option_name option \<noteq> fo"
  shows "GetOptionField q f \<in> set (calls (snd (addToProject_item api fn fo issue owner powner p c start))) \<Longrightarrow>
     \<exists>item. AddIssueToColumn q item (field_id resp) None
       \<in> set (calls (snd (addToProject_item api fn fo issue owner powner p c start)))"
  by (auto simp: item_calls split: sum.splits if_splits dest: field_option_missing[OF assms])

lemma project_option_missing:
  assumes "getOptionField api q f = Inr resp"
    and "\<forall>option\<in>set (options resp). option_name option \<noteq> fo"
  shows "GetOptionField q f \<in> set (calls (snd (addToProject_project api url fn fo issue owner start))) \<Longrightarrow>
     \<exists>item. AddIssueToColumn q item (field_id resp) None
       \<in> set (calls (snd (addToProject_project api url fn fo issue owner start)))"
  by (rule project_cases[where api=api and url=url and fn=fn and fo=fo and issue=issue and owner=owner])
     (auto dest: item_option_missing[OF assms])

text \<open>
  Claim C6. A run that has sent the lookup of the field and got a reply in which no option
  has exactly the configured option name sends the update-single-select-value mutation
  all the same, with an undefined option identifier.
\<close>

theorem missing_option_still_updates:
  assumes "GetOptionField p f \<in> set (calls (snd (addToProject api inp pl)))"
    and "getOptionField api p f = Inr resp"
    and "\<forall>option\<in>set (options resp). option_name option \<noteq> input_field_option inp"
  shows "\<exists>item. AddIssueToColumn p item (field_id resp) None
       \<in> set (calls (snd (addToProject api inp pl)))"
  by (rule run_cases[where api=api and inp=inp and pl=pl])
     (use assms(1) in \<open>auto dest: project_option_missing[OF assms(2,3)]\<close>)

theorem missing_option_still_updates_witness:
  "GetOptionField (Some ''P_1'') ''Status''
     \<in> set (calls (snd (addToProject demo_api (demo_inputs demo_url ''todo'' '''' '''') demo_payload))) \<and>
   list_all (\<lambda>option. option_name option \<noteq> ''todo'')
     [\<lparr>option_id = ''o1'', option_name = ''Todo''\<rparr>, \<lparr>option_id = ''o2'', option_name = ''Done''\<rparr>] \<and>
   (\<exists>item. AddIssueToColumn (Some ''P_1'') item ''F_1'' None
     \<in> set (calls (snd (addToProject demo_api (demo_inputs demo_url ''todo'' '''' '''') demo_payload))))"
proof -
  have sent: "GetOptionField (Some ''P_1'') ''Status''
     \<in> set (calls (snd (addToProject demo_api (demo_inputs demo_url ''todo'' '''' '''') demo_payload)))"
    by code_simp
  have reply: "getOptionField demo_api (Some ''P_1'') ''Status'' =
      Inr \<lparr>field_id = ''F_1'',
           options = [\<lparr>option_id = ''o1'', option_name = ''Todo''\<rparr>,
                      \<lparr>option_id = ''o2'', option_name = ''Done''\<rparr>]\<rparr>"
    by (simp add: demo_api_def)
  have other: "\<forall>option\<in>set (options \<lparr>field_id = ''F_1'',
           options = [\<lparr>option_id = ''o1'', option_name = ''Todo''\<rparr>,
                      \<lparr>option_id = ''o2'', option_name = ''Done''\<rparr>]\<rparr>).
      option_name option \<noteq> input_field_option (demo_inputs demo_url ''todo'' '''' '''')"
    by (simp add: demo_inputs_def)
  show ?thesis
    using missing_option_still_updates [OF sent reply other] sent
    by simp
qed

section \<open>The project item\<close>

lemma field_only:
  "filter isItemCreation (calls (snd (addToProject_field api fn fo p item start))) = []"
  "GetProject k n j \<notin> set (calls (snd (addToProject_field api fn fo p item start)))"
  by (simp_all add: field_calls iteration_only split: sum.splits)

lemma item_creations:
  "filter isItemCreation (calls (snd (addToProject_item api fn fo issue owner powner p c start))) =
     [if owner = Some powner then AddIssueToProject p c
      else AddDraftIssueToProject p (case issue of None \<Rightarrow> None | Some i \<Rightarrow> html_url i)]"
  "GetProject k n j \<notin> set (calls (snd (addToProject_item api fn fo issue owner powner p c start)))"
  by (simp_all add: item_calls field_only split: sum.splits)

lemma projectIdOf_cases:
  "projectIdOf resp k = Inl TypeError \<or> (\<exists>projectId. projectIdOf resp k = Inr projectId)"
  by (simp add: projectIdOf_def split: option.splits)

text \<open>
  Claim C1, as the code has it. No run sends more than one of the two item-creation
  mutations. A run sends exactly one when it passes the label filter, its project URL
  matches the pattern, the lookup of the project id is answered and line 151 gives a
  project id, defined or not: the attach-existing-content mutation with the project id and
  the content id when the owner login of the content equals the owner name of the URL, and
  otherwise the create-draft-item mutation with the project id and the URL of the content
  as title. Every other run sends neither: a run that is skipped, a run whose project URL
  does not match, a run whose lookup is rejected, and a run whose reply holds the owner
  without a project, where line 151 raises. A URL that matches always has a supported owner
  kind, and line 151 either raises or gives a project id, so that these are all the runs.
\<close>

theorem item_creation_after_lookup:
  "length (filter isItemCreation (calls (snd (addToProject api inp pl)))) \<le> 1 \<and>
   (proceeds (addToProject api inp pl) \<and>
    urlParse (input_project_url inp) = Some m \<and>
    mustGetOwnerTypeQuery (Some (group_ownerType m)) = Inr k \<and>
    getProject api k (group_ownerName m) (parseInt10 (group_projectNumber m)) = Inr resp \<and>
    projectIdOf resp k = Inr projectId \<longrightarrow>
      filter isItemCreation (calls (snd (addToProject api inp pl))) =
        [if payload_repository_owner_login pl = Some (group_ownerName m)
         then AddIssueToProject projectId
                (case issueOf pl of None \<Rightarrow> None | Some i \<Rightarrow> node_id i)
         else AddDraftIssueToProject projectId
                (case issueOf pl of None \<Rightarrow> None | Some i \<Rightarrow> html_url i)]) \<and>
   (\<not> proceeds (addToProject api inp pl) \<or> urlParse (input_project_url inp) = None \<longrightarrow>
      filter isItemCreation (calls (snd (addToProject api inp pl))) = []) \<and>
   (urlParse (input_project_url inp) = Some m \<and>
    mustGetOwnerTypeQuery (Some (group_ownerType m)) = Inr k \<and>
    getProject api k (group_ownerName m) (parseInt10 (group_projectNumber m)) = Inl msg \<longrightarrow>
      filter isItemCreation (calls (snd (addToProject api inp pl))) = []) \<and>
   (urlParse (input_project_url inp) = Some m \<and>
    mustGetOwnerTypeQuery (Some (group_ownerType m)) = Inr k \<and>
    getProject api k (group_ownerName m) (parseInt10 (group_projectNumber m)) = Inr resp \<and>
    projectIdOf resp k = Inl TypeError \<longrightarrow>
      filter isItemCreation (calls (snd (addToProject api inp pl))) = []) \<and>
   (urlParse (input_project_url inp) = Some m \<longrightarrow>
      (\<exists>k. mustGetOwnerTypeQuery (Some (group_ownerType m)) = Inr k)) \<and>
   (projectIdOf resp k = Inl TypeError \<or> (\<exists>projectId. projectIdOf resp k = Inr projectId))"
proof -
  have supported: "urlParse (input_project_url inp) = Some m \<longrightarrow>
      (\<exists>k. mustGetOwnerTypeQuery (Some (group_ownerType m)) = Inr k)"
    by (blast dest: urlParse_supported)
  have rest: "length (filter isItemCreation (calls (snd (addToProject api inp pl)))) \<le> 1 \<and>
   (proceeds (addToProject api inp pl) \<and>
    urlParse (input_project_url inp) = Some m \<and>
    mustGetOwnerTypeQuery (Some (group_ownerType m)) = Inr k \<and>
    getProject api k (group_ownerName m) (parseInt10 (group_projectNumber m)) = Inr resp \<and>
    projectIdOf resp k = Inr projectId \<longrightarrow>
      filter isItemCreation (calls (snd (addToProject api inp pl))) =
        [if payload_repository_owner_login pl = Some (group_ownerName m)
         then AddIssueToProject projectId
                (case issueOf pl of None \<Rightarrow> None | Some i \<Rightarrow> node_id i)
         else AddDraftIssueToProject projectId
                (case issueOf pl of None \<Rightarrow> None | Some i \<Rightarrow> html_url i)]) \<and>
   (\<not> proceeds (addToProject api inp pl) \<or> urlParse (input_project_url inp) = None \<longrightarrow>
      filter isItemCreation (calls (snd (addToProject api inp pl))) = []) \<and>
   (urlParse (input_project_url inp) = Some m \<and>
    mustGetOwnerTypeQuery (Some (group_ownerType m)) = Inr k \<and>
    getProject api k (group_ownerName m) (parseInt10 (group_projectNumber m)) = Inl msg \<longrightarrow>
      filter isItemCreation (calls (snd (addToProject api inp pl))) = []) \<and>
   (urlParse (input_project_url inp) = Some m \<and>
    mustGetOwnerTypeQuery (Some (group_ownerType m)) = Inr k \<and>
    getProject api k (group_ownerName m) (parseInt10 (group_projectNumber m)) = Inr resp \<and>
    projectIdOf resp k = Inl TypeError \<longrightarrow>
      filter isItemCreation (calls (snd (addToProject api inp pl))) = [])"
  proof (rule run_cases[where api=api and inp=inp and pl=pl])
    fix e
    assume "labelFilter (labelOperatorOf inp) (labeledOf inp) (issueLabelsOf pl)
              (map_option number (issueOf pl)) = Some e"
      and "calls (snd (addToProject api inp pl)) = []"
    then show ?thesis
      by (simp add: proceeds_iff)
  next
    assume passed: "labelFilter (labelOperatorOf inp) (labeledOf inp) (issueLabelsOf pl)
              (map_option number (issueOf pl)) = None"
      and c: "calls (snd (addToProject api inp pl)) =
        calls (snd (addToProject_project api (input_project_url inp) (input_field_name inp)
          (input_field_option inp) (issueOf pl) (payload_repository_owner_login pl) start))"
    have p: "proceeds (addToProject api inp pl)"
      using passed by (simp add: proceeds_iff)
    show ?thesis
      unfolding c
      by (rule project_cases[where api=api and url="input_project_url inp"
            and fn="input_field_name inp" and fo="input_field_option inp" and issue="issueOf pl"
            and owner="payload_repository_owner_login pl"])
         (use p in \<open>auto simp: item_creations\<close>)
  qed
  show ?thesis
    using rest supported projectIdOf_cases [of resp k] by blast
qed

theorem item_creation_after_lookup_witness:
  "proceeds (addToProject demo_api (demo_inputs demo_url ''Todo'' '''' '''') demo_payload) \<and>
   urlParse demo_url =
     Some \<lparr>group_ownerType = ''orgs'', group_ownerName = ''acme'', group_projectNumber = ''7''\<rparr> \<and>
   mustGetOwnerTypeQuery (Some ''orgs'') = Inr ''organization'' \<and>
   getProject demo_api ''organization'' ''acme'' 7 =
     Inr \<lparr>organization = Some \<lparr>projectV2 = Some ''P_1''\<rparr>, user = None\<rparr> \<and>
   projectIdOf \<lparr>organization = Some \<lparr>projectV2 = Some ''P_1''\<rparr>, user = None\<rparr> ''organization'' =
     Inr (Some ''P_1'') \<and>
   payload_repository_owner_login demo_payload = Some ''acme'' \<and>
   filter isItemCreation
     (calls (snd (addToProject demo_api (demo_inputs demo_url ''Todo'' '''' '''') demo_payload))) =
     [AddIssueToProject (Some ''P_1'') (Some ''N_5'')] \<and>
   getProject (demo_api\<lparr>getProject := \<lambda>k n j. Inl ''Could not resolve''\<rparr>) ''organization'' ''acme'' 7 =
     Inl ''Could not resolve'' \<and>
   filter isItemCreation
     (calls (snd (addToProject (demo_api\<lparr>getProject := \<lambda>k n j. Inl ''Could not resolve''\<rparr>)
        (demo_inputs demo_url ''Todo'' '''' '''') demo_payload))) = [] \<and>
   projectIdOf \<lparr>organization = Some \<lparr>projectV2 = None\<rparr>, user = None\<rparr> ''organization'' =
     Inl TypeError \<and>
   filter isItemCreation
     (calls (snd (addToProject
        (demo_api\<lparr>getProject := \<lambda>k n j. Inr \<lparr>organization = Some \<lparr>projectV2 = None\<rparr>, user = None\<rparr>\<rparr>)
        (demo_inputs demo_url ''Todo'' '''' '''') demo_payload))) = []"
proof -
  have pass: "proceeds (addToProject demo_api (demo_inputs demo_url ''Todo'' '''' '''') demo_payload)"
    by code_simp
  have given: "input_project_url (demo_inputs demo_url ''Todo'' '''' '''') = demo_url"
    by (simp add: demo_inputs_def)
  have url: "urlParse demo_url =
     Some \<lparr>group_ownerType = ''orgs'', group_ownerName = ''acme'', group_projectNumber = ''7''\<rparr>"
    by code_simp
  have kind: "mustGetOwnerTypeQuery (Some ''orgs'') = Inr ''organization''"
    by code_simp
  have number: "parseInt10 ''7'' = 7"
    by code_simp
  have reply: "getProject demo_api ''organization'' ''acme'' 7 =
      Inr \<lparr>organization = Some \<lparr>projectV2 = Some ''P_1''\<rparr>, user = None\<rparr>"
    by (simp add: demo_api_def)
  have project: "projectIdOf \<lparr>organization = Some \<lparr>projectV2 = Some ''P_1''\<rparr>, user = None\<rparr>
      ''organization'' = Inr (Some ''P_1'')"
    by (simp add: projectIdOf_def member_of_def)
  have projectless: "projectIdOf \<lparr>organization = Some \<lparr>projectV2 = None\<rparr>, user = None\<rparr>
      ''organization'' = Inl TypeError"
    by (simp add: projectIdOf_def member_of_def)
  have content: "issueOf demo_payload =
      Some \<lparr>number = 5, node_id = Some ''N_5'',
        html_url = Some ''https://github.com/acme/shop/issues/5'', labels = Some [''Bug'', ''Docs'']\<rparr>"
    by (simp add: issueOf_def demo_payload_def)
  have owner: "payload_repository_owner_login demo_payload = Some ''acme''"
    by (simp add: demo_payload_def)
  have one: "filter isItemCreation
     (calls (snd (addToProject demo_api (demo_inputs demo_url ''Todo'' '''' '''') demo_payload))) =
     [AddIssueToProject (Some ''P_1'') (Some ''N_5'')]"
    using item_creation_after_lookup [of demo_api
        "demo_inputs demo_url ''Todo'' '''' ''''" demo_payload
        "\<lparr>group_ownerType = ''orgs'', group_ownerName = ''acme'', group_projectNumber = ''7''\<rparr>"
        "''organization''" "\<lparr>organization = Some \<lparr>projectV2 = Some ''P_1''\<rparr>, user = None\<rparr>"
        "Some ''P_1''"]
      pass url kind reply project
    by (simp add: number content owner given)
  have rejected: "filter isItemCreation
     (calls (snd (addToProject (demo_api\<lparr>getProject := \<lambda>k n j. Inl ''Could not resolve''\<rparr>)
        (demo_inputs demo_url ''Todo'' '''' '''') demo_payload))) = []"
    using item_creation_after_lookup [of "demo_api\<lparr>getProject := \<lambda>k n j. Inl ''Could not resolve''\<rparr>"
        "demo_inputs demo_url ''Todo'' '''' ''''" demo_payload
        "\<lparr>group_ownerType = ''orgs'', group_ownerName = ''acme'', group_projectNumber = ''7''\<rparr>"
        "''organization''" _ _ "''Could not resolve''"]
      url kind
    by (simp add: given)
  have without: "filter isItemCreation
     (calls (snd (addToProject
        (demo_api\<lparr>getProject := \<lambda>k n j. Inr \<lparr>organization = Some \<lparr>projectV2 = None\<rparr>, user = None\<rparr>\<rparr>)
        (demo_inputs demo_url ''Todo'' '''' '''') demo_payload))) = []"
    using item_creation_after_lookup [of
        "demo_api\<lparr>getProject := \<lambda>k n j. Inr \<lparr>organization = Some \<lparr>projectV2 = None\<rparr>, user = None\<rparr>\<rparr>"
        "demo_inputs demo_url ''Todo'' '''' ''''" demo_payload
        "\<lparr>group_ownerType = ''orgs'', group_ownerName = ''acme'', group_projectNumber = ''7''\<rparr>"
        "''organization''" "\<lparr>organization = Some \<lparr>projectV2 = None\<rparr>, user = None\<rparr>"]
      url kind projectless
    by (simp add: given)
  show ?thesis
    using pass url kind reply project projectless owner one rejected without
    by simp
qed

text \<open>
  A run that passes the label filter with a project URL that does not match the pattern:
  it raises the error of the invalid URL and has sent neither item-creation mutation.
\<close>

theorem item_creation_none_on_invalid_url:
  "proceeds (addToProject demo_api (demo_inputs ''https://example.com/acme'' ''Todo'' '''' '''') demo_payload) \<and>
   \<not> skipped (addToProject demo_api (demo_inputs ''https://example.com/acme'' ''Todo'' '''' '''') demo_payload) \<and>
   fst (addToProject demo_api (demo_inputs ''https://example.com/acme'' ''Todo'' '''' '''') demo_payload) =
     Inl (InvalidProjectUrl ''https://example.com/acme'') \<and>
   filter isItemCreation
     (calls (snd (addToProject demo_api (demo_inputs ''https://example.com/acme'' ''Todo'' '''' '''') demo_payload))) = []"
  by code_simp

text \<open>
  Claim C9, as the code has it. Take a run that has sent the lookup of the project id and
  got a reply. When the reply holds the member of the owner kind without a project, an
  empty result, the run fails right after the lookup with the \<open>TypeError\<close> of line 151,
  and has sent nothing but the lookup. When the reply has no member under the key of the
  owner kind, a missing result, the code raises nothing there: the project id is
  undefined, and the run sends exactly one item-creation mutation, with the undefined
  project id. If that mutation is rejected the run fails with the rejection and has sent
  nothing else; if it is answered, the run goes on with the field and the iteration, with
  the undefined project id and the item of the answer, and returns what they return.
\<close>

theorem missing_project_id_still_creates:
  assumes "GetProject k n j \<in> set (calls (snd (addToProject api inp pl)))"
    and "getProject api k n j = Inr resp"
  shows
   "(\<forall>owner. member_of resp k = Some owner \<and> projectV2 owner = None \<longrightarrow>
       fst (addToProject api inp pl) = Inl TypeError \<and>
       calls (snd (addToProject api inp pl)) = [GetProject k n j]) \<and>
    (member_of resp k = None \<longrightarrow>
       (let creation =
              (if payload_repository_owner_login pl = Some n
               then AddIssueToProject None (case issueOf pl of None \<Rightarrow> None | Some i \<Rightarrow> node_id i)
               else AddDraftIssueToProject None (case issueOf pl of None \<Rightarrow> None | Some i \<Rightarrow> html_url i));
            answer =
              (if payload_repository_owner_login pl = Some n
               then addIssueToProject api None (case issueOf pl of None \<Rightarrow> None | Some i \<Rightarrow> node_id i)
               else addDraftIssueToProject api None
                      (case issueOf pl of None \<Rightarrow> None | Some i \<Rightarrow> html_url i))
        in filter isItemCreation (calls (snd (addToProject api inp pl))) = [creation] \<and>
           (\<forall>msg. answer = Inl msg \<longrightarrow>
              fst (addToProject api inp pl) = Inl (GraphqlError msg) \<and>
              calls (snd (addToProject api inp pl)) = [GetProject k n j, creation]) \<and>
           (\<forall>item. answer = Inr item \<longrightarrow>
              fst (addToProject api inp pl) =
                fst (addToProject_field api (input_field_name inp) (input_field_option inp)
                       None item start) \<and>
              calls (snd (addToProject api inp pl)) =
                GetProject k n j # creation #
                calls (snd (addToProject_field api (input_field_name inp) (input_field_option inp)
                              None item start)))))"
proof (rule run_cases[where api=api and inp=inp and pl=pl])
  assume "calls (snd (addToProject api inp pl)) = []"
  with assms(1) show ?thesis
    by simp
next
  assume r: "fst (addToProject api inp pl) =
      fst (addToProject_project api (input_project_url inp) (input_field_name inp)
        (input_field_option inp) (issueOf pl) (payload_repository_owner_login pl) start)"
    and c: "calls (snd (addToProject api inp pl)) =
      calls (snd (addToProject_project api (input_project_url inp) (input_field_name inp)
        (input_field_option inp) (issueOf pl) (payload_repository_owner_login pl) start))"
  have sent: "GetProject k n j \<in> set (calls (snd (addToProject_project api (input_project_url inp)
        (input_field_name inp) (input_field_option inp) (issueOf pl)
        (payload_repository_owner_login pl) start)))"
    using assms(1) c by simp
  show ?thesis
  proof (rule project_cases[where api=api and url="input_project_url inp"
          and fn="input_field_name inp" and fo="input_field_option inp" and issue="issueOf pl"
          and owner="payload_repository_owner_login pl"])
    assume "calls (snd (addToProject_project api (input_project_url inp) (input_field_name inp)
        (input_field_option inp) (issueOf pl) (payload_repository_owner_login pl) start)) = []"
    with sent show ?thesis
      by simp
  next
    fix m k' msg
    assume "getProject api k' (group_ownerName m) (parseInt10 (group_projectNumber m)) = Inl msg"
      and "calls (snd (addToProject_project api (input_project_url inp) (input_field_name inp)
        (input_field_option inp) (issueOf pl) (payload_repository_owner_login pl) start)) =
         [GetProject k' (group_ownerName m) (parseInt10 (group_projectNumber m))]"
    with sent assms(2) show ?thesis
      by auto
  next
    fix m k' resp'
    assume "getProject api k' (group_ownerName m) (parseInt10 (group_projectNumber m)) = Inr resp'"
      and "projectIdOf resp' k' = Inl TypeError"
      and "fst (addToProject_project api (input_project_url inp) (input_field_name inp)
        (input_field_option inp) (issueOf pl) (payload_repository_owner_login pl) start) =
         Inl TypeError"
      and "calls (snd (addToProject_project api (input_project_url inp) (input_field_name inp)
        (input_field_option inp) (issueOf pl) (payload_repository_owner_login pl) start)) =
         [GetProject k' (group_ownerName m) (parseInt10 (group_projectNumber m))]"
    with sent assms(2) show ?thesis
      unfolding c r by (auto simp: projectIdOf_error)
  next
    fix m k' resp' projectId
    assume g: "getProject api k' (group_ownerName m) (parseInt10 (group_projectNumber m)) = Inr resp'"
      and i: "projectIdOf resp' k' = Inr projectId"
      and r': "fst (addToProject_project api (input_project_url inp) (input_field_name inp)
        (input_field_option inp) (issueOf pl) (payload_repository_owner_login pl) start) =
         fst (addToProject_item api (input_field_name inp) (input_field_option inp) (issueOf pl)
                (payload_repository_owner_login pl) (group_ownerName m) projectId
                (case issueOf pl of None \<Rightarrow> None | Some i \<Rightarrow> node_id i) start)"
      and c': "calls (snd (addToProject_project api (input_project_url inp) (input_field_name inp)
        (input_field_option inp) (issueOf pl) (payload_repository_owner_login pl) start)) =
         GetProject k' (group_ownerName m) (parseInt10 (group_projectNumber m)) #
         calls (snd (addToProject_item api (input_field_name inp) (input_field_option inp) (issueOf pl)
                (payload_repository_owner_login pl) (group_ownerName m) projectId
                (case issueOf pl of None \<Rightarrow> None | Some i \<Rightarrow> node_id i) start))"
    have same: "k' = k \<and> group_ownerName m = n \<and> parseInt10 (group_projectNumber m) = j"
      using sent unfolding c' by (simp add: item_creations)
    with g assms(2) have resp: "resp' = resp"
      by simp
    have "projectIdOf resp k \<noteq> Inl TypeError"
      using i same resp by simp
    then have none: "\<not> (\<exists>owner. member_of resp k = Some owner \<and> projectV2 owner = None)"
      by (simp add: projectIdOf_error)
    have undefined: "member_of resp k = None \<longrightarrow> projectId = None"
      using i same resp by (auto simp: projectIdOf_def split: option.splits)
    show ?thesis
      unfolding c r c' r'
      using none undefined same
      by (auto simp: Let_def item_calls item_result field_only split: sum.splits)
  qed
qed

theorem missing_project_id_still_creates_witness:
  "GetProject ''organization'' ''acme'' 7
     \<in> set (calls (snd (addToProject
          (demo_api\<lparr>getProject := \<lambda>k n j. Inr \<lparr>organization = Some \<lparr>projectV2 = None\<rparr>, user = None\<rparr>\<rparr>)
          (demo_inputs demo_url ''Todo'' '''' '''') demo_payload))) \<and>
   member_of \<lparr>organization = Some \<lparr>projectV2 = None\<rparr>, user = None\<rparr> ''organization'' =
     Some \<lparr>projectV2 = None\<rparr> \<and>
   fst (addToProject
          (demo_api\<lparr>getProject := \<lambda>k n j. Inr \<lparr>organization = Some \<lparr>projectV2 = None\<rparr>, user = None\<rparr>\<rparr>)
          (demo_inputs demo_url ''Todo'' '''' '''') demo_payload) = Inl TypeError \<and>
   calls (snd (addToProject
          (demo_api\<lparr>getProject := \<lambda>k n j. Inr \<lparr>organization = Some \<lparr>projectV2 = None\<rparr>, user = None\<rparr>\<rparr>)
          (demo_inputs demo_url ''Todo'' '''' '''') demo_payload)) =
     [GetProject ''organization'' ''acme'' 7] \<and>
   GetProject ''organization'' ''acme'' 7
     \<in> set (calls (snd (addToProject
          (demo_api\<lparr>getProject := \<lambda>k n j. Inr \<lparr>organization = None, user = Some \<lparr>projectV2 = Some ''P_9''\<rparr>\<rparr>\<rparr>)
          (demo_inputs demo_url ''Todo'' '''' '''') demo_payload))) \<and>
   member_of \<lparr>organization = None, user = Some \<lparr>projectV2 = Some ''P_9''\<rparr>\<rparr> ''organization'' = None \<and>
   filter isItemCreation (calls (snd (addToProject
          (demo_api\<lparr>getProject := \<lambda>k n j. Inr \<lparr>organization = None, user = Some \<lparr>projectV2 = Some ''P_9''\<rparr>\<rparr>\<rparr>)
          (demo_inputs demo_url ''Todo'' '''' '''') demo_payload))) =
     [AddIssueToProject None (Some ''N_5'')] \<and>
   fst (addToProject
          (demo_api\<lparr>getProject := \<lambda>k n j. Inr \<lparr>organization = None, user = Some \<lparr>projectV2 = Some ''P_9''\<rparr>\<rparr>\<rparr>)
          (demo_inputs demo_url ''Todo'' '''' '''') demo_payload) =
     fst (addToProject_field
          (demo_api\<lparr>getProject := \<lambda>k n j. Inr \<lparr>organization = None, user = Some \<lparr>projectV2 = Some ''P_9''\<rparr>\<rparr>\<rparr>)
          ''Status'' ''Todo'' None ''I_1'' start)"
proof -
  have sent_empty: "GetProject ''organization'' ''acme'' 7
     \<in> set (calls (snd (addToProject
          (demo_api\<lparr>getProject := \<lambda>k n j. Inr \<lparr>organization = Some \<lparr>projectV2 = None\<rparr>, user = None\<rparr>\<rparr>)
          (demo_inputs demo_url ''Todo'' '''' '''') demo_payload)))"
    by code_simp
  have reply_empty: "getProject
      (demo_api\<lparr>getProject := \<lambda>k n j. Inr \<lparr>organization = Some \<lparr>projectV2 = None\<rparr>, user = None\<rparr>\<rparr>)
      ''organization'' ''acme'' 7 = Inr \<lparr>organization = Some \<lparr>projectV2 = None\<rparr>, user = None\<rparr>"
    by simp
  have empty: "member_of \<lparr>organization = Some \<lparr>projectV2 = None\<rparr>, user = None\<rparr> ''organization'' =
      Some \<lparr>projectV2 = None\<rparr>"
    by (simp add: member_of_def)
  have sent_missing: "GetProject ''organization'' ''acme'' 7
     \<in> set (calls (snd (addToProject
          (demo_api\<lparr>getProject := \<lambda>k n j. Inr \<lparr>organization = None, user = Some \<lparr>projectV2 = Some ''P_9''\<rparr>\<rparr>\<rparr>)
          (demo_inputs demo_url ''Todo'' '''' '''') demo_payload)))"
    by code_simp
  have reply_missing: "getProject
      (demo_api\<lparr>getProject := \<lambda>k n j. Inr \<lparr>organization = None, user = Some \<lparr>projectV2 = Some ''P_9''\<rparr>\<rparr>\<rparr>)
      ''organization'' ''acme'' 7 =
      Inr \<lparr>organization = None, user = Some \<lparr>projectV2 = Some ''P_9''\<rparr>\<rparr>"
    by simp
  have missing: "member_of \<lparr>organization = None, user = Some \<lparr>projectV2 = Some ''P_9''\<rparr>\<rparr>
      ''organization'' = None"
    by (simp add: member_of_def)
  have content: "issueOf demo_payload =
      Some \<lparr>number = 5, node_id = Some ''N_5'',
        html_url = Some ''https://github.com/acme/shop/issues/5'', labels = Some [''Bug'', ''Docs'']\<rparr>"
    by (simp add: issueOf_def demo_payload_def)
  have owner: "payload_repository_owner_login demo_payload = Some ''acme''"
    by (simp add: demo_payload_def)
  have answer: "addIssueToProject demo_api None (Some ''N_5'') = Inr ''I_1''"
    by (simp add: demo_api_def)
  have given: "input_field_name (demo_inputs demo_url ''Todo'' '''' '''') = ''Status''"
    "input_field_option (demo_inputs demo_url ''Todo'' '''' '''') = ''Todo''"
    by (simp_all add: demo_inputs_def)
  show ?thesis
    using missing_project_id_still_creates [OF sent_empty reply_empty]
      missing_project_id_still_creates [OF sent_missing reply_missing]
      sent_empty sent_missing
    by (simp add: empty missing content owner answer given Let_def field_only)
qed

text \<open>
  A run in which the reply to the lookup of the project id has no member at all: the run
  does not fail. It sends the attach-existing-content mutation with an undefined project
  id, then every later request, and returns normally.
\<close>

theorem missing_project_id_run_goes_on:
  "getProject (demo_api\<lparr>getProject := \<lambda>k n j. Inr \<lparr>organization = None, user = None\<rparr>\<rparr>)
     ''organization'' ''acme'' 7 = Inr \<lparr>organization = None, user = None\<rparr> \<and>
   fst (addToProject (demo_api\<lparr>getProject := \<lambda>k n j. Inr \<lparr>organization = None, user = None\<rparr>\<rparr>)
          (demo_inputs demo_url ''Todo'' '''' '''') demo_payload) = Inr () \<and>
   calls (snd (addToProject (demo_api\<lparr>getProject := \<lambda>k n j. Inr \<lparr>organization = None, user = None\<rparr>\<rparr>)
          (demo_inputs demo_url ''Todo'' '''' '''') demo_payload)) =
     [GetProject ''organization'' ''acme'' 7,
      AddIssueToProject None (Some ''N_5''),
      GetOptionField None ''Status'',
      AddIssueToColumn None ''I_1'' ''F_1'' (Some ''o1''),
      GetIteration None,
      AddIssueToIteration None ''I_1'' ''F_2'' ''b'']"
  by code_simp

end
